theory Spec2Isabelle
  imports Main "HOL-Library.Sublist" "HOL-Library.Word"
begin

section \<open>JavaScript values\<close>

text \<open>
  The handler of \<^verbatim>\<open>api/now-playing.mjs\<close> works on the values that
  \<^verbatim>\<open>response.json()\<close> parses and on the object literals it builds from them.
  A value is \<^verbatim>\<open>undefined\<close> or a JSON value. An object is the list of its own
  properties in enumeration order (keys are distinct in a parsed object). A number is
  an integer from \<open>-2\<^sup>5\<^sup>3\<close> to \<open>2\<^sup>5\<^sup>3 - 1\<close>, held as the 54-bit word
  whose signed value it is: these are integers that a JavaScript number holds exactly and
  prints in plain decimal (the upstream's \<^verbatim>\<open>progress_ms\<close> and
  \<^verbatim>\<open>duration_ms\<close> are whole milliseconds). Fractions and larger numbers are not
  values of the model.
\<close>

datatype jsval =
    JUndefined
  | JNull
  | JBool bool
  | JNum "54 word"
  | JStr string
  | JArr "jsval list"
  | JObj "(string \<times> jsval) list"

text \<open>
  A thrown value. Everything this program throws or lets escape is an
  \<^verbatim>\<open>Error\<close> object: its own \<^verbatim>\<open>new Error(...)\<close>, the engine's
  \<^verbatim>\<open>TypeError\<close> (a property read on \<^verbatim>\<open>undefined\<close> or
  \<^verbatim>\<open>null\<close>, a call of a non-function, a rejected \<^verbatim>\<open>fetch\<close>) and the
  \<^verbatim>\<open>SyntaxError\<close> of \<^verbatim>\<open>response.json()\<close> on a body that is not JSON.
  Each carries its \<^verbatim>\<open>message\<close>.
\<close>

datatype js_error = Error string | TypeError string | SyntaxError string

fun message :: "js_error \<Rightarrow> string" where
  "message (Error m) = m"
| "message (TypeError m) = m"
| "message (SyntaxError m) = m"

fun instanceof_Error :: "js_error \<Rightarrow> bool" where
  "instanceof_Error (Error m) = True"
| "instanceof_Error (TypeError m) = True"
| "instanceof_Error (SyntaxError m) = True"

fun nullish :: "jsval \<Rightarrow> bool" where
  "nullish JUndefined = True"
| "nullish JNull = True"
| "nullish v = False"

text \<open>ToBoolean: what \<^verbatim>\<open>!x\<close>, \<^verbatim>\<open>x && y\<close> and \<^verbatim>\<open>if (x)\<close> test.\<close>

fun truthy :: "jsval \<Rightarrow> bool" where
  "truthy JUndefined = False"
| "truthy JNull = False"
| "truthy (JBool b) = b"
| "truthy (JNum n) = (n \<noteq> 0)"
| "truthy (JStr s) = (s \<noteq> [])"
| "truthy (JArr xs) = True"
| "truthy (JObj kvs) = True"

text \<open>
  \<^verbatim>\<open>v.k\<close> on a value that is neither \<^verbatim>\<open>undefined\<close> nor \<^verbatim>\<open>null\<close>:
  the own property of an object, \<^verbatim>\<open>undefined\<close> when it has none. The program reads
  only the names \<^verbatim>\<open>access_token, is_playing, item, type, name, artists, album, images,
  url, external_urls, spotify, progress_ms, duration_ms, items, track\<close>; none of them is
  a property of a string, a number, a boolean, an array or of
  \<^verbatim>\<open>Object.prototype\<close>, so every other value answers \<^verbatim>\<open>undefined\<close>.
\<close>

fun field :: "jsval \<Rightarrow> string \<Rightarrow> jsval" where
  "field (JObj kvs) k = (case map_of kvs k of Some v \<Rightarrow> v | None \<Rightarrow> JUndefined)"
| "field v k = JUndefined"

definition cannot_read :: "jsval \<Rightarrow> string \<Rightarrow> js_error" where
  "cannot_read v k =
     TypeError (''Cannot read properties of ''
                @ (if v = JNull then ''null'' else ''undefined'')
                @ '' (reading '' @ [CHR 0x27] @ k @ [CHR 0x27] @ '')'')"

text \<open>\<^verbatim>\<open>v.k\<close> in general: a TypeError on \<^verbatim>\<open>undefined\<close> and \<^verbatim>\<open>null\<close>.\<close>

definition get_prop :: "jsval \<Rightarrow> string \<Rightarrow> js_error + jsval" where
  "get_prop v k = (if nullish v then Inl (cannot_read v k) else Inr (field v k))"

text \<open>\<^verbatim>\<open>v?.k\<close>: \<^verbatim>\<open>undefined\<close> instead of the TypeError.\<close>

definition optional_prop :: "jsval \<Rightarrow> string \<Rightarrow> jsval" where
  "optional_prop v k = (if nullish v then JUndefined else field v k)"

text \<open>
  \<^verbatim>\<open>v[0]\<close>: the first element of an array, the first character of a string, the
  property \<^verbatim>\<open>"0"\<close> of an object; \<^verbatim>\<open>undefined\<close> when there is none (JavaScript
  does not raise on an index out of range), a TypeError on \<^verbatim>\<open>undefined\<close> and
  \<^verbatim>\<open>null\<close>.
\<close>

fun index0 :: "jsval \<Rightarrow> js_error + jsval" where
  "index0 JUndefined = Inl (cannot_read JUndefined ''0'')"
| "index0 JNull = Inl (cannot_read JNull ''0'')"
| "index0 (JArr xs) = Inr (case xs of [] \<Rightarrow> JUndefined | x # _ \<Rightarrow> x)"
| "index0 (JStr s) = Inr (case s of [] \<Rightarrow> JUndefined | c # _ \<Rightarrow> JStr [c])"
| "index0 (JObj kvs) = Inr (field (JObj kvs) ''0'')"
| "index0 v = Inr JUndefined"

subsection \<open>Sequencing of code that may throw\<close>

definition and_then :: "js_error + 'a \<Rightarrow> ('a \<Rightarrow> js_error + 'b) \<Rightarrow> js_error + 'b" where
  "and_then m f = (case m of Inl e \<Rightarrow> Inl e | Inr x \<Rightarrow> f x)"

primrec map_try :: "('a \<Rightarrow> js_error + 'b) \<Rightarrow> 'a list \<Rightarrow> js_error + 'b list" where
  "map_try f [] = Inr []"
| "map_try f (x # xs) = and_then (f x) (\<lambda>y. and_then (map_try f xs) (\<lambda>ys. Inr (y # ys)))"

subsection \<open>Strings of numbers and values\<close>

definition digit_char :: "nat \<Rightarrow> char" where
  "digit_char d = ''0123456789abcdef'' ! d"

function show_nat :: "nat \<Rightarrow> string" where
  "show_nat n = (if n < 10 then [digit_char n] else show_nat (n div 10) @ [digit_char (n mod 10)])"
  by pat_completeness auto
termination
  by (relation "measure id") auto

declare show_nat.simps [simp del]

definition show_int :: "int \<Rightarrow> string" where
  "show_int i = (if i < 0 then ''-'' @ show_nat (nat (- i)) else show_nat (nat i))"

fun join_strs :: "string \<Rightarrow> string list \<Rightarrow> string" where
  "join_strs sep [] = []"
| "join_strs sep [s] = s"
| "join_strs sep (s # t # ts) = s @ sep @ join_strs sep (t # ts)"

text \<open>
  ToString, as a template literal and \<^verbatim>\<open>Array.prototype.join\<close> apply it. An array
  is its elements joined by a comma, \<^verbatim>\<open>undefined\<close> and \<^verbatim>\<open>null\<close> elements
  giving the empty string. A parsed object inherits \<^verbatim>\<open>Object.prototype.toString\<close>
  unless it has an own property \<^verbatim>\<open>toString\<close>, which is then not callable, and the
  conversion ends in a TypeError whatever \<^verbatim>\<open>valueOf\<close> is. A number of the
  model prints in decimal, as every integer below \<open>10\<^sup>2\<^sup>1\<close> in magnitude does.
\<close>

fun ToString :: "jsval \<Rightarrow> js_error + string"
  and join_elems :: "jsval list \<Rightarrow> js_error + string list" where
  "ToString JUndefined = Inr ''undefined''"
| "ToString JNull = Inr ''null''"
| "ToString (JBool b) = Inr (if b then ''true'' else ''false'')"
| "ToString (JNum n) = Inr (show_int (sint n))"
| "ToString (JStr s) = Inr s"
| "ToString (JArr xs) = and_then (join_elems xs) (\<lambda>ss. Inr (join_strs '','' ss))"
| "ToString (JObj kvs) =
     (if map_of kvs ''toString'' = None then Inr ''[object Object]''
      else Inl (TypeError ''Cannot convert object to primitive value''))"
| "join_elems [] = Inr []"
| "join_elems (x # xs) =
     and_then (if nullish x then Inr [] else ToString x)
       (\<lambda>s. and_then (join_elems xs) (\<lambda>ss. Inr (s # ss)))"

text \<open>\<^verbatim>\<open>xs.join(sep)\<close> on an array.\<close>

definition join :: "jsval list \<Rightarrow> string \<Rightarrow> js_error + string" where
  "join xs sep = and_then (join_elems xs) (\<lambda>ss. Inr (join_strs sep ss))"

text \<open>
  \<^verbatim>\<open>v.map(f)\<close>: \<^verbatim>\<open>Array.prototype.map\<close> on an array, applying \<open>f\<close> from
  left to right; reading \<^verbatim>\<open>map\<close> of \<^verbatim>\<open>undefined\<close> or \<^verbatim>\<open>null\<close> is a
  TypeError, and on any other value \<^verbatim>\<open>map\<close> is not a function (a parsed object
  can only hold a JSON value under that name). \<open>expr\<close> is the source text of
  \<open>v\<close>, which the engine quotes in its message.
\<close>

fun call_map :: "string \<Rightarrow> jsval \<Rightarrow> (jsval \<Rightarrow> js_error + jsval) \<Rightarrow> js_error + jsval list" where
  "call_map expr JUndefined f = Inl (cannot_read JUndefined ''map'')"
| "call_map expr JNull f = Inl (cannot_read JNull ''map'')"
| "call_map expr (JArr xs) f = map_try f xs"
| "call_map expr v f = Inl (TypeError (expr @ ''.map is not a function''))"

text \<open>
  \<^verbatim>\<open>JSON.stringify\<close>: \<^verbatim>\<open>undefined\<close> has no text (the result is
  \<^verbatim>\<open>undefined\<close>), a property whose value is \<^verbatim>\<open>undefined\<close> is left out,
  an \<^verbatim>\<open>undefined\<close> array element is written \<^verbatim>\<open>null\<close>. A string is quoted
  with the escapes of QuoteJSONString.
\<close>

definition quote_char :: "char \<Rightarrow> string" where
  "quote_char c =
     (if c = CHR 0x08 then [CHR 0x5C, CHR ''b'']
      else if c = CHR 0x09 then [CHR 0x5C, CHR ''t'']
      else if c = CHR 0x0A then [CHR 0x5C, CHR ''n'']
      else if c = CHR 0x0C then [CHR 0x5C, CHR ''f'']
      else if c = CHR 0x0D then [CHR 0x5C, CHR ''r'']
      else if c = CHR 0x22 then [CHR 0x5C, CHR 0x22]
      else if c = CHR 0x5C then [CHR 0x5C, CHR 0x5C]
      else if (of_char c :: nat) < 32
        then [CHR 0x5C, CHR ''u'', CHR ''0'', CHR ''0'',
              digit_char (of_char c div 16), digit_char (of_char c mod 16)]
      else [c])"

definition QuoteJSONString :: "string \<Rightarrow> string" where
  "QuoteJSONString s = [CHR 0x22] @ concat (map quote_char s) @ [CHR 0x22]"

fun JSON_stringify :: "jsval \<Rightarrow> string option"
  and stringify_elements :: "jsval list \<Rightarrow> string list"
  and stringify_properties :: "(string \<times> jsval) list \<Rightarrow> string list" where
  "JSON_stringify JUndefined = None"
| "JSON_stringify JNull = Some ''null''"
| "JSON_stringify (JBool b) = Some (if b then ''true'' else ''false'')"
| "JSON_stringify (JNum n) = Some (show_int (sint n))"
| "JSON_stringify (JStr s) = Some (QuoteJSONString s)"
| "JSON_stringify (JArr xs) = Some (''['' @ join_strs '','' (stringify_elements xs) @ '']'')"
| "JSON_stringify (JObj kvs) = Some (''{'' @ join_strs '','' (stringify_properties kvs) @ ''}'')"
| "stringify_elements [] = []"
| "stringify_elements (x # xs) =
     (case JSON_stringify x of None \<Rightarrow> ''null'' | Some s \<Rightarrow> s) # stringify_elements xs"
| "stringify_properties [] = []"
| "stringify_properties ((k, v) # kvs) =
     (case JSON_stringify v of
        None \<Rightarrow> stringify_properties kvs
      | Some s \<Rightarrow> (QuoteJSONString k @ '':'' @ s) # stringify_properties kvs)"

text \<open>\<^verbatim>\<open>${JSON.stringify(v)}\<close> inside a template literal.\<close>

definition stringified :: "jsval \<Rightarrow> string" where
  "stringified v = (case JSON_stringify v of None \<Rightarrow> ''undefined'' | Some s \<Rightarrow> s)"

section \<open>The upstream service\<close>

text \<open>
  A request as \<^verbatim>\<open>fetch(url, {method, headers, body})\<close> receives it; the body of the
  token request is the list of the fields appended to its \<^verbatim>\<open>URLSearchParams\<close>.
  A response has its \<^verbatim>\<open>status\<close> and what \<^verbatim>\<open>await response.json()\<close> gives:
  the parsed value, or the error it rejects with when the body is not JSON (an empty
  body, as a 204 has, or an HTML error page).
\<close>

record request =
  url :: string
  http_method :: string
  headers :: "(string \<times> string) list"
  body :: "(string \<times> string) list"

record response =
  status :: nat
  json :: "js_error + jsval"

text \<open>\<^verbatim>\<open>response.ok\<close>: the status is in the range 200 to 299.\<close>

definition ok :: "response \<Rightarrow> bool" where
  "ok r = (200 \<le> status r \<and> status r \<le> 299)"

text \<open>
  The upstream seen from one invocation: what each \<^verbatim>\<open>fetch\<close> resolves to, or the
  error it rejects with when the network fails.
\<close>

type_synonym upstream = "request \<Rightarrow> js_error + response"

text \<open>
  The process configuration: \<^verbatim>\<open>REFRESH_TOKEN\<close> and \<^verbatim>\<open>BASIC_TOKEN\<close>, the
  Base64 text of \<^verbatim>\<open>CLIENT_ID:CLIENT_SECRET\<close> computed once when the module loads.
\<close>

record config =
  BASIC_TOKEN :: string
  REFRESH_TOKEN :: string

definition NOW_PLAYING_ENDPOINT :: string where
  "NOW_PLAYING_ENDPOINT = ''https://api.spotify.com/v1/me/player/currently-playing''"

definition RECENTLY_PLAYED_ENDPOINT :: string where
  "RECENTLY_PLAYED_ENDPOINT = ''https://api.spotify.com/v1/me/player/recently-played''"

definition TOKEN_ENDPOINT :: string where
  "TOKEN_ENDPOINT = ''https://accounts.spotify.com/api/token''"

subsection \<open>Asynchronous code\<close>

text \<open>
  An \<^verbatim>\<open>async\<close> function is modelled by the requests it has sent, in order, and
  the value it resolves to or the error it rejects with. \<open>await\<close> runs the
  continuation on a resolved value and stops at a rejection.
\<close>

type_synonym 'a promise = "request list \<times> (js_error + 'a)"

definition resolved :: "'a \<Rightarrow> 'a promise" where
  "resolved x = ([], Inr x)"

definition rejected :: "js_error \<Rightarrow> 'a promise" where
  "rejected e = ([], Inl e)"

definition settled :: "js_error + 'a \<Rightarrow> 'a promise" where
  "settled m = ([], m)"

definition await :: "'a promise \<Rightarrow> ('a \<Rightarrow> 'b promise) \<Rightarrow> 'b promise" where
  "await p f =
     (case p of
        (sent, Inl e) \<Rightarrow> (sent, Inl e)
      | (sent, Inr x) \<Rightarrow> (case f x of (sent', r) \<Rightarrow> (sent @ sent', r)))"

definition fetch :: "upstream \<Rightarrow> request \<Rightarrow> response promise" where
  "fetch up req = ([req], up req)"

text \<open>A promise that settles after the requests \<open>sent\<close> were sent.\<close>

definition after :: "request list \<Rightarrow> 'a promise \<Rightarrow> 'a promise" where
  "after sent p = (sent @ fst p, snd p)"

section \<open>The current revision: \<^verbatim>\<open>src/api/now-playing.mjs\<close>\<close>

subsection \<open>\<^verbatim>\<open>getAccessToken\<close>\<close>

definition token_request :: "config \<Rightarrow> request" where
  "token_request cfg =
     \<lparr>url = TOKEN_ENDPOINT,
      http_method = ''POST'',
      headers = [(''Authorization'', ''Basic '' @ BASIC_TOKEN cfg),
                 (''Content-Type'', ''application/x-www-form-urlencoded'')],
      body = [(''grant_type'', ''refresh_token''),
              (''refresh_token'', REFRESH_TOKEN cfg)]\<rparr>"

text \<open>
  The message
  \<^verbatim>\<open>`Spotify token API returned ${response.status}: ${JSON.stringify(data)}`\<close>.
\<close>

definition token_error_message :: "response \<Rightarrow> jsval \<Rightarrow> string" where
  "token_error_message response data =
     ''Spotify token API returned '' @ show_nat (status response) @ '': '' @ stringified data"

text \<open>
  The body is parsed before \<^verbatim>\<open>response.ok\<close> is looked at, so a body that is not
  JSON rejects with the parser's error whatever the status is.
\<close>

definition getAccessToken :: "config \<Rightarrow> upstream \<Rightarrow> jsval promise" where
  "getAccessToken cfg up =
     await (fetch up (token_request cfg)) (\<lambda>response.
     await (settled (json response)) (\<lambda>data.
       if \<not> ok response
       then rejected (Error (token_error_message response data))
       else resolved data))"

subsection \<open>\<^verbatim>\<open>getNowPlaying\<close>\<close>

text \<open>
  \<^verbatim>\<open>const { access_token } = v\<close>: a TypeError when \<open>v\<close> is
  \<^verbatim>\<open>undefined\<close> or \<^verbatim>\<open>null\<close>, the property otherwise.
\<close>

definition cannot_destructure :: "jsval \<Rightarrow> string \<Rightarrow> js_error" where
  "cannot_destructure v k =
     TypeError (''Cannot destructure property '' @ [CHR 0x27] @ k @ [CHR 0x27]
                @ '' of '' @ [CHR 0x27] @ ''(intermediate value)'' @ [CHR 0x27]
                @ '' as it is '' @ (if v = JNull then ''null'' else ''undefined'')
                @ ''.'')"

definition destructure :: "jsval \<Rightarrow> string \<Rightarrow> js_error + jsval" where
  "destructure v k = (if nullish v then Inl (cannot_destructure v k) else Inr (field v k))"

text \<open>The request headers \<^verbatim>\<open>{'Authorization': `Bearer ${access_token}`}\<close>.\<close>

definition bearer :: "jsval \<Rightarrow> js_error + (string \<times> string) list" where
  "bearer access_token =
     and_then (ToString access_token) (\<lambda>s. Inr [(''Authorization'', ''Bearer '' @ s)])"

text \<open>
  \<^verbatim>\<open>t.artists.map((artist) => artist.name).join(', ')\<close> for a truthy \<open>t\<close>
  whose source text is \<open>expr\<close>.
\<close>

definition artistName :: "string \<Rightarrow> jsval \<Rightarrow> js_error + jsval" where
  "artistName expr t =
     and_then (call_map (expr @ ''.artists'') (field t ''artists'')
                 (\<lambda>artist. get_prop artist ''name'')) (\<lambda>names.
     and_then (join names '', '') (\<lambda>s. Inr (JStr s)))"

text \<open>\<^verbatim>\<open>t.album.images[0]?.url\<close> for a truthy \<open>t\<close>.\<close>

definition albumArtUrl :: "jsval \<Rightarrow> js_error + jsval" where
  "albumArtUrl t =
     and_then (get_prop (field t ''album'') ''images'') (\<lambda>images.
     and_then (index0 images) (\<lambda>first. Inr (optional_prop first ''url'')))"

text \<open>\<^verbatim>\<open>t.external_urls.spotify\<close> for a truthy \<open>t\<close>.\<close>

definition songUrl :: "jsval \<Rightarrow> js_error + jsval" where
  "songUrl t = get_prop (field t ''external_urls'') ''spotify''"

definition offline :: jsval where
  "offline = JObj [(''status'', JStr ''offline''), (''isPlaying'', JBool False)]"

text \<open>
  The test \<^verbatim>\<open>song && song.is_playing && song.item && song.item.type === 'track'\<close>.
  Each property is read only after the value it is read from was found truthy, so no read
  can raise.
\<close>

definition active_track :: "jsval \<Rightarrow> bool" where
  "active_track song =
     (truthy song \<and> truthy (field song ''is_playing'') \<and> truthy (field song ''item'')
      \<and> field (field song ''item'') ''type'' = JStr ''track'')"

text \<open>The object returned for an actively playing track (lines 74 to 83).\<close>

definition playing :: "jsval \<Rightarrow> js_error + jsval" where
  "playing song =
     and_then (artistName ''song.item'' (field song ''item'')) (\<lambda>artists.
     and_then (albumArtUrl (field song ''item'')) (\<lambda>art.
     and_then (songUrl (field song ''item'')) (\<lambda>link.
       Inr (JObj [(''status'', JStr ''playing''),
                  (''isPlaying'', field song ''is_playing''),
                  (''trackName'', field (field song ''item'') ''name''),
                  (''artistName'', artists),
                  (''albumArtUrl'', art),
                  (''songUrl'', link),
                  (''progressMs'', field song ''progress_ms''),
                  (''durationMs'', field (field song ''item'') ''duration_ms'')]))))"

text \<open>The object returned for the last played track (lines 108 to 117).\<close>

definition last_played :: "jsval \<Rightarrow> js_error + jsval" where
  "last_played lastTrack =
     and_then (artistName ''lastTrack'' lastTrack) (\<lambda>artists.
     and_then (albumArtUrl lastTrack) (\<lambda>art.
     and_then (songUrl lastTrack) (\<lambda>link.
       Inr (JObj [(''status'', JStr ''last_played''),
                  (''isPlaying'', JBool False),
                  (''trackName'', field lastTrack ''name''),
                  (''artistName'', artists),
                  (''albumArtUrl'', art),
                  (''songUrl'', link),
                  (''progressMs'', JNum 0),
                  (''durationMs'', field lastTrack ''duration_ms'')]))))"

definition now_playing_request :: "(string \<times> string) list \<Rightarrow> request" where
  "now_playing_request auth =
     \<lparr>url = NOW_PLAYING_ENDPOINT, http_method = ''GET'', headers = auth, body = []\<rparr>"

definition recently_played_request :: "(string \<times> string) list \<Rightarrow> request" where
  "recently_played_request auth =
     \<lparr>url = RECENTLY_PLAYED_ENDPOINT @ ''?limit=1'', http_method = ''GET'', headers = auth,
      body = []\<rparr>"

text \<open>
  The second part of \<^verbatim>\<open>getNowPlaying\<close>, "If Nothing is Playing, Check for
  Recently Played" (lines 87 to 122); \<^verbatim>\<open>recentData.items[0]?.track\<close> is read as
  written.
\<close>

definition checkRecentlyPlayed :: "upstream \<Rightarrow> jsval \<Rightarrow> jsval promise" where
  "checkRecentlyPlayed up access_token =
     await (settled (bearer access_token)) (\<lambda>auth.
     await (fetch up (recently_played_request auth)) (\<lambda>recentResponse.
       if \<not> ok recentResponse then resolved offline
       else
         await (settled (json recentResponse)) (\<lambda>recentData.
         await (settled (and_then (get_prop recentData ''items'') (\<lambda>items.
                         and_then (index0 items) (\<lambda>first.
                           Inr (optional_prop first ''track''))))) (\<lambda>lastTrack.
           if truthy lastTrack then settled (last_played lastTrack)
           else resolved offline))))"

definition getNowPlaying :: "config \<Rightarrow> upstream \<Rightarrow> jsval promise" where
  "getNowPlaying cfg up =
     await (getAccessToken cfg up) (\<lambda>data.
     await (settled (destructure data ''access_token'')) (\<lambda>access_token.
       if \<not> truthy access_token then rejected (Error ''Could not get access token'')
       else
         await (settled (bearer access_token)) (\<lambda>auth.
         await (fetch up (now_playing_request auth)) (\<lambda>nowPlayingResponse.
           if status nowPlayingResponse = 200
           then
             await (settled (json nowPlayingResponse)) (\<lambda>song.
               if active_track song then settled (playing song)
               else checkRecentlyPlayed up access_token)
           else checkRecentlyPlayed up access_token))))"

subsection \<open>The handler\<close>

text \<open>
  What the handler does to \<^verbatim>\<open>res\<close>: the headers it sets with
  \<^verbatim>\<open>res.setHeader\<close>, in order, the status it gives to \<^verbatim>\<open>res.status\<close> and the
  value it hands to \<^verbatim>\<open>res.json\<close>. What the platform's \<^verbatim>\<open>res.json\<close> adds by
  itself when it serialises that value is not part of the program.
\<close>

record reply =
  statusCode :: nat
  setHeaders :: "(string \<times> string) list"
  jsonBody :: jsval

definition handler :: "config \<Rightarrow> upstream \<Rightarrow> reply" where
  "handler cfg up =
     (case snd (getNowPlaying cfg up) of
        Inr data \<Rightarrow>
          \<lparr>statusCode = 200,
           setHeaders = [(''Content-Type'', ''application/json''),
                         (''cache-control'', ''public, s-maxage=10, stale-while-revalidate=5'')],
           jsonBody = data\<rparr>
      | Inl error \<Rightarrow>
          (let errorMessage = (if instanceof_Error error then message error
                               else ''Unknown error'')
           in \<lparr>statusCode = 500,
               setHeaders = [],
               jsonBody = JObj [(''status'', JStr ''error''), (''isPlaying'', JBool False),
                                (''error'', JStr errorMessage)]\<rparr>))"

text \<open>The requests one invocation of the handler sends, in order.\<close>

definition requests :: "config \<Rightarrow> upstream \<Rightarrow> request list" where
  "requests cfg up = fst (getNowPlaying cfg up)"

section \<open>The first revision: \<^verbatim>\<open>src/unnamed/part_000\<close>, lines 1 to 129\<close>

text \<open>
  Its \<^verbatim>\<open>getAccessToken\<close> sends the same request (the form fields are given to
  \<^verbatim>\<open>fetch\<close> as a \<^verbatim>\<open>URLSearchParams\<close> object instead of its text) and has the
  same body, so \<open>getAccessToken\<close> stands for it too. The recently-played
  endpoint is another one, the test of the song has no \<^verbatim>\<open>song &&\<close> in front, and a
  recently-played response that is not ok is thrown.
\<close>

definition RECENTLY_PLAYED_ENDPOINT_rev1 :: string where
  "RECENTLY_PLAYED_ENDPOINT_rev1 = ''http://googleusercontent.com/spotify.com/3''"

definition recently_played_request_rev1 :: "(string \<times> string) list \<Rightarrow> request" where
  "recently_played_request_rev1 auth =
     \<lparr>url = RECENTLY_PLAYED_ENDPOINT_rev1 @ ''?limit=1'', http_method = ''GET'', headers = auth,
      body = []\<rparr>"

definition checkRecentlyPlayed_rev1 :: "upstream \<Rightarrow> jsval \<Rightarrow> jsval promise" where
  "checkRecentlyPlayed_rev1 up access_token =
     await (settled (bearer access_token)) (\<lambda>auth.
     await (fetch up (recently_played_request_rev1 auth)) (\<lambda>recentResponse.
       if \<not> ok recentResponse
       then rejected (Error (''Spotify recent-played API returned ''
                             @ show_nat (status recentResponse)))
       else
         await (settled (json recentResponse)) (\<lambda>recentData.
         await (settled (and_then (get_prop recentData ''items'') (\<lambda>items.
                         and_then (index0 items) (\<lambda>first.
                           Inr (optional_prop first ''track''))))) (\<lambda>lastTrack.
           if truthy lastTrack then settled (last_played lastTrack)
           else resolved offline))))"

text \<open>
  \<^verbatim>\<open>song.is_playing && song.item && song.item.type === 'track'\<close>: the first read
  raises when the body is \<^verbatim>\<open>null\<close>.
\<close>

definition active_track_rev1 :: "jsval \<Rightarrow> js_error + bool" where
  "active_track_rev1 song =
     and_then (get_prop song ''is_playing'') (\<lambda>is_playing.
       Inr (truthy is_playing \<and> truthy (field song ''item'')
            \<and> field (field song ''item'') ''type'' = JStr ''track''))"

definition getNowPlaying_rev1 :: "config \<Rightarrow> upstream \<Rightarrow> jsval promise" where
  "getNowPlaying_rev1 cfg up =
     await (getAccessToken cfg up) (\<lambda>data.
     await (settled (destructure data ''access_token'')) (\<lambda>access_token.
       if \<not> truthy access_token then rejected (Error ''Could not get access token'')
       else
         await (settled (bearer access_token)) (\<lambda>auth.
         await (fetch up (now_playing_request auth)) (\<lambda>nowPlayingResponse.
           if status nowPlayingResponse = 200
           then
             await (settled (json nowPlayingResponse)) (\<lambda>song.
             await (settled (active_track_rev1 song)) (\<lambda>active.
               if active then settled (playing song)
               else checkRecentlyPlayed_rev1 up access_token))
           else checkRecentlyPlayed_rev1 up access_token))))"

text \<open>
  The first revision returns a \<^verbatim>\<open>Response\<close> object: its status, its headers and
  the value it serialises as the body.
\<close>

definition handler_rev1 :: "config \<Rightarrow> upstream \<Rightarrow> reply" where
  "handler_rev1 cfg up =
     (case snd (getNowPlaying_rev1 cfg up) of
        Inr data \<Rightarrow>
          \<lparr>statusCode = 200,
           setHeaders = [(''Content-Type'', ''application/json''),
                         (''cache-control'', ''public, s-maxage=10, stale-while-revalidate=5'')],
           jsonBody = data\<rparr>
      | Inl error \<Rightarrow>
          \<lparr>statusCode = 500,
           setHeaders = [(''Content-Type'', ''application/json'')],
           jsonBody = JObj [(''status'', JStr ''error''), (''isPlaying'', JBool False),
                            (''error'', JStr (message error))]\<rparr>)"

section \<open>Upstream states\<close>

text \<open>
  The conditions on the upstream that the properties below speak of. The token endpoint
  grants the access token \<open>tok\<close>: it answers with a 2xx status and a JSON body
  whose \<^verbatim>\<open>access_token\<close> is that non-empty string. Requests to the player then carry
  the header \<open>authorization tok\<close>.
\<close>

definition authorization :: "string \<Rightarrow> (string \<times> string) list" where
  "authorization tok = [(''Authorization'', ''Bearer '' @ tok)]"

definition token_granted :: "config \<Rightarrow> upstream \<Rightarrow> string \<Rightarrow> bool" where
  "token_granted cfg up tok =
     (case up (token_request cfg) of
        Inl e \<Rightarrow> False
      | Inr r \<Rightarrow>
          ok r \<and> (case json r of
                    Inl e \<Rightarrow> False
                  | Inr data \<Rightarrow> field data ''access_token'' = JStr tok \<and> tok \<noteq> []))"

text \<open>
  Nothing is playing: the currently-playing endpoint answers with a status other than 200
  (204 and 404 among them), or with 200 and a JSON body whose \<^verbatim>\<open>is_playing\<close> is
  not truthy or whose \<^verbatim>\<open>item\<close> is not of type \<^verbatim>\<open>track\<close>.
\<close>

definition nothing_playing :: "upstream \<Rightarrow> string \<Rightarrow> bool" where
  "nothing_playing up tok =
     (case up (now_playing_request (authorization tok)) of
        Inl e \<Rightarrow> False
      | Inr r \<Rightarrow>
          status r \<noteq> 200 \<or>
          (case json r of
             Inl e \<Rightarrow> False
           | Inr song \<Rightarrow> \<not> truthy (field song ''is_playing'')
                         \<or> field (field song ''item'') ''type'' \<noteq> JStr ''track''))"

subsection \<open>Examples\<close>

text \<open>
  An upstream that answers the token endpoint with \<open>t\<close>, the currently-playing
  endpoint with \<open>n\<close> and every other request with \<open>r\<close>.
\<close>

definition upstream_of ::
  "js_error + response \<Rightarrow> js_error + response \<Rightarrow> js_error + response \<Rightarrow> upstream" where
  "upstream_of t n r req =
     (if url req = TOKEN_ENDPOINT then t
      else if url req = NOW_PLAYING_ENDPOINT then n
      else r)"

definition example_config :: config where
  "example_config = \<lparr>BASIC_TOKEN = ''aWQ6c2VjcmV0'', REFRESH_TOKEN = ''AQDrefresh''\<rparr>"

definition token_response :: response where
  "token_response =
     \<lparr>status = 200,
      json = Inr (JObj [(''access_token'', JStr ''BQDaccess''),
                        (''token_type'', JStr ''Bearer''),
                        (''expires_in'', JNum 3600)])\<rparr>"

definition tokenless_response :: response where
  "tokenless_response =
     \<lparr>status = 200,
      json = Inr (JObj [(''token_type'', JStr ''Bearer''), (''expires_in'', JNum 3600)])\<rparr>"

definition unauthorized :: response where
  "unauthorized =
     \<lparr>status = 401, json = Inr (JObj [(''error'', JStr ''invalid_client'')])\<rparr>"

definition bad_gateway :: response where
  "bad_gateway =
     \<lparr>status = 502, json = Inl (SyntaxError ''Unexpected token < in JSON at position 0'')\<rparr>"

definition no_content :: response where
  "no_content = \<lparr>status = 204, json = Inl (SyntaxError ''Unexpected end of JSON input'')\<rparr>"

definition server_error :: response where
  "server_error =
     \<lparr>status = 500, json = Inr (JObj [(''error'', JObj [(''status'', JNum 500)])])\<rparr>"

definition example_track :: jsval where
  "example_track =
     JObj [(''type'', JStr ''track''),
           (''name'', JStr ''Get Lucky''),
           (''artists'', JArr [JObj [(''name'', JStr ''Daft Punk'')],
                               JObj [(''name'', JStr ''Pharrell Williams'')]]),
           (''album'', JObj [(''images'', JArr [JObj [(''url'', JStr ''https://i.scdn.co/image/1''),
                                                      (''height'', JNum 640)],
                                                JObj [(''url'', JStr ''https://i.scdn.co/image/2''),
                                                      (''height'', JNum 300)]])]),
           (''external_urls'', JObj [(''spotify'', JStr ''https://open.spotify.com/track/1'')]),
           (''duration_ms'', JNum 248000)]"


definition example_song :: jsval where
  "example_song =
     JObj [(''is_playing'', JBool True), (''progress_ms'', JNum 5000),
           (''item'', example_track)]"

definition paused_song :: jsval where
  "paused_song =
     JObj [(''is_playing'', JBool False), (''progress_ms'', JNum 5000),
           (''item'', example_track)]"

definition example_history :: jsval where
  "example_history = JObj [(''items'', JArr [JObj [(''track'', example_track)]])]"

definition empty_history :: jsval where
  "empty_history = JObj [(''items'', JArr [])]"

definition name_of_artist :: "jsval \<Rightarrow> string" where
  "name_of_artist a = (case field a ''name'' of JStr s \<Rightarrow> s | _ \<Rightarrow> [])"

definition playing_upstream :: upstream where
  "playing_upstream =
     upstream_of (Inr token_response) (Inr \<lparr>status = 200, json = Inr example_song\<rparr>)
       (Inr server_error)"

definition idle_upstream :: "response \<Rightarrow> upstream" where
  "idle_upstream r = upstream_of (Inr token_response) (Inr no_content) (Inr r)"

definition paused_upstream :: "response \<Rightarrow> upstream" where
  "paused_upstream r =
     upstream_of (Inr token_response) (Inr \<lparr>status = 200, json = Inr paused_song\<rparr>) (Inr r)"

definition failing_token_upstream :: "response \<Rightarrow> upstream" where
  "failing_token_upstream t = upstream_of (Inr t) (Inr no_content) (Inr server_error)"

text \<open>
  A 200 answer with the JSON body \<open>v\<close>, a 200 answer whose body is not JSON, and an
  upstream that grants the token and answers the currently-playing request with \<open>n\<close>.
\<close>

definition answer :: "jsval \<Rightarrow> response" where
  "answer v = \<lparr>status = 200, json = Inr v\<rparr>"

definition unparsable :: response where
  "unparsable = \<lparr>status = 200, json = Inl (SyntaxError ''Unexpected end of JSON input'')\<rparr>"

definition null_token_response :: response where
  "null_token_response = \<lparr>status = 200, json = Inr JNull\<rparr>"

definition now_playing_upstream :: "response \<Rightarrow> upstream" where
  "now_playing_upstream n = upstream_of (Inr token_response) (Inr n) (Inr server_error)"

text \<open>Bodies that pass the tests of the code and lack what it reads next.\<close>

definition active_song :: "jsval \<Rightarrow> jsval" where
  "active_song item =
     JObj [(''is_playing'', JBool True), (''progress_ms'', JNum 5000), (''item'', item)]"

definition bare_track :: jsval where
  "bare_track = JObj [(''type'', JStr ''track''), (''name'', JStr ''Demo'')]"

definition track_with_null_artist :: jsval where
  "track_with_null_artist =
     JObj [(''type'', JStr ''track''), (''name'', JStr ''Demo''), (''artists'', JArr [JNull])]"

definition track_without_album :: jsval where
  "track_without_album =
     JObj [(''type'', JStr ''track''), (''name'', JStr ''Demo''),
           (''artists'', JArr [JObj [(''name'', JStr ''Me'')]])]"

definition track_without_urls :: jsval where
  "track_without_urls =
     JObj [(''type'', JStr ''track''), (''name'', JStr ''Demo''),
           (''artists'', JArr [JObj [(''name'', JStr ''Me'')]]),
           (''album'', JObj [(''images'', JArr [])])]"

definition numeric_song :: jsval where
  "numeric_song =
     JObj [(''is_playing'', JNum 1), (''progress_ms'', JNum 5000), (''item'', example_track)]"

definition history_of :: "jsval \<Rightarrow> jsval" where
  "history_of t = JObj [(''items'', JArr [JObj [(''track'', t)]])]"

definition stale_history :: jsval where
  "stale_history = JObj [(''items'', JArr [JObj [], JObj [(''track'', example_track)]])]"

section \<open>Properties\<close>

subsection \<open>Auxiliary facts\<close>

lemma await_resolved: "await (sent, Inr x) f = (case f x of (s', r) \<Rightarrow> (sent @ s', r))"
  by (simp add: await_def)

lemma await_rejected: "await (sent, Inl e) f = (sent, Inl e)"
  by (simp add: await_def)

lemmas promise_simps = await_resolved await_rejected settled_def resolved_def rejected_def fetch_def

text \<open>The numbers of the model: every one of them prints in plain decimal.\<close>

lemma number_range: "- (2 ^ 53) \<le> sint (n :: 54 word) \<and> sint n < 2 ^ 53"
  using sint_ge [of n] sint_lt [of n] by simp

lemma field_nullish: "nullish v \<Longrightarrow> field v k = JUndefined"
  by (cases v) simp_all

lemma field_defined: "field v k = w \<Longrightarrow> w \<noteq> JUndefined \<Longrightarrow> \<not> nullish v"
  using field_nullish by blast

lemma bearer_string: "bearer (JStr tok) = Inr (authorization tok)"
  by (simp add: bearer_def and_then_def authorization_def)

lemma active_track_iff:
  "active_track song \<longleftrightarrow>
     truthy (field song ''is_playing'') \<and> field (field song ''item'') ''type'' = JStr ''track''"
proof -
  have a: "truthy (field song ''is_playing'') \<Longrightarrow> truthy song"
    by (cases song) simp_all
  have b: "field (field song ''item'') ''type'' = JStr ''track'' \<Longrightarrow> truthy (field song ''item'')"
    by (cases "field song ''item''") simp_all
  show ?thesis
    unfolding active_track_def using a b by blast
qed

lemma getAccessToken_granted:
  assumes "token_granted cfg up tok"
  shows "\<exists>data. getAccessToken cfg up = ([token_request cfg], Inr data)
               \<and> field data ''access_token'' = JStr tok"
  using assms
  by (auto simp: token_granted_def getAccessToken_def promise_simps
           split: sum.splits)

lemma destructure_field: "field v k = w \<Longrightarrow> w \<noteq> JUndefined \<Longrightarrow> destructure v k = Inr w"
  using field_nullish by (auto simp: destructure_def)

lemma getNowPlaying_granted:
  assumes "token_granted cfg up tok"
  shows "getNowPlaying cfg up =
           after [token_request cfg]
             (await (fetch up (now_playing_request (authorization tok))) (\<lambda>nowPlayingResponse.
                if status nowPlayingResponse = 200
                then await (settled (json nowPlayingResponse)) (\<lambda>song.
                       if active_track song then settled (playing song)
                       else checkRecentlyPlayed up (JStr tok))
                else checkRecentlyPlayed up (JStr tok)))"
proof -
  from getAccessToken_granted [OF assms] obtain data
    where d: "getAccessToken cfg up = ([token_request cfg], Inr data)"
      and t: "field data ''access_token'' = JStr tok"
    by blast
  have ne: "tok \<noteq> []"
    using assms by (auto simp: token_granted_def split: sum.splits)
  have ds: "destructure data ''access_token'' = Inr (JStr tok)"
    using destructure_field [OF t] by simp
  show ?thesis
    unfolding getNowPlaying_def d
    by (simp add: await_resolved settled_def ds ne bearer_string after_def split: prod.splits)
qed


lemma map_try_names:
  "\<forall>a\<in>set as. field a ''name'' = JStr (name_of a) \<Longrightarrow>
     map_try (\<lambda>artist. get_prop artist ''name'') as = Inr (map (\<lambda>a. JStr (name_of a)) as)"
proof (induction as)
  case Nil
  show ?case by simp
next
  case (Cons a as)
  have "\<not> nullish a"
    using Cons.prems field_defined [of a "''name''"] by simp
  with Cons show ?case
    by (simp add: get_prop_def and_then_def)
qed

lemma join_elems_strings: "join_elems (map (\<lambda>a. JStr (f a)) as) = Inr (map f as)"
  by (induction as) (simp_all add: and_then_def)

lemma artistName_track:
  assumes "field t ''artists'' = JArr as"
    and "\<forall>a\<in>set as. field a ''name'' = JStr (name_of a)"
  shows "artistName expr t = Inr (JStr (join_strs '', '' (map name_of as)))"
  by (simp add: artistName_def assms(1) map_try_names [OF assms(2)] join_def
        join_elems_strings and_then_def)

lemma albumArtUrl_track:
  assumes "field (field t ''album'') ''images'' = JArr imgs"
  shows "albumArtUrl t = Inr (case imgs of [] \<Rightarrow> JUndefined | img # _ \<Rightarrow> optional_prop img ''url'')"
proof -
  have "\<not> nullish (field t ''album'')"
    using assms field_defined by blast
  then show ?thesis
    by (simp add: albumArtUrl_def get_prop_def assms and_then_def optional_prop_def
          split: list.splits)
qed

lemma songUrl_track:
  assumes "\<not> nullish (field t ''external_urls'')"
  shows "songUrl t = Inr (field (field t ''external_urls'') ''spotify'')"
  using assms by (simp add: songUrl_def get_prop_def)

text \<open>
  The reads of \<^verbatim>\<open>artists\<close>, \<^verbatim>\<open>album.images\<close> and \<^verbatim>\<open>external_urls\<close> are not
  guarded: an item that passes the test of its type and has no \<^verbatim>\<open>artists\<close> ends in a
  TypeError. The lemmas on tracks below therefore say which shape they assume.
\<close>

lemma playing_without_artists:
  "playing (JObj [(''is_playing'', JBool True), (''item'', JObj [(''type'', JStr ''track'')])])
     = Inl (cannot_read JUndefined ''map'')"
  by (simp add: playing_def artistName_def and_then_def)

lemma playing_track:
  assumes "field (field song ''item'') ''artists'' = JArr as"
    and "\<forall>a\<in>set as. field a ''name'' = JStr (name_of a)"
    and "field (field (field song ''item'') ''album'') ''images'' = JArr imgs"
    and "\<not> nullish (field (field song ''item'') ''external_urls'')"
  shows "playing song =
           Inr (JObj [(''status'', JStr ''playing''),
                      (''isPlaying'', field song ''is_playing''),
                      (''trackName'', field (field song ''item'') ''name''),
                      (''artistName'', JStr (join_strs '', '' (map name_of as))),
                      (''albumArtUrl'',
                         (case imgs of [] \<Rightarrow> JUndefined | img # _ \<Rightarrow> optional_prop img ''url'')),
                      (''songUrl'', field (field (field song ''item'') ''external_urls'') ''spotify''),
                      (''progressMs'', field song ''progress_ms''),
                      (''durationMs'', field (field song ''item'') ''duration_ms'')])"
  unfolding playing_def
  by (simp add: artistName_track [OF assms(1,2)] albumArtUrl_track [OF assms(3)]
        songUrl_track [OF assms(4)] and_then_def)

lemma last_played_track:
  assumes "field t ''artists'' = JArr as"
    and "\<forall>a\<in>set as. field a ''name'' = JStr (name_of a)"
    and "field (field t ''album'') ''images'' = JArr imgs"
    and "\<not> nullish (field t ''external_urls'')"
  shows "last_played t =
           Inr (JObj [(''status'', JStr ''last_played''),
                      (''isPlaying'', JBool False),
                      (''trackName'', field t ''name''),
                      (''artistName'', JStr (join_strs '', '' (map name_of as))),
                      (''albumArtUrl'',
                         (case imgs of [] \<Rightarrow> JUndefined | img # _ \<Rightarrow> optional_prop img ''url'')),
                      (''songUrl'', field (field t ''external_urls'') ''spotify''),
                      (''progressMs'', JNum 0),
                      (''durationMs'', field t ''duration_ms'')])"
  unfolding last_played_def
  by (simp add: artistName_track [OF assms(1,2)] albumArtUrl_track [OF assms(3)]
        songUrl_track [OF assms(4)] and_then_def)

lemma await_settled:
  "await (settled m) f = (case m of Inl e \<Rightarrow> ([], Inl e) | Inr x \<Rightarrow> f x)"
  by (simp add: await_def settled_def split: sum.splits prod.splits)

lemma await_fetch:
  "await (fetch up req) f =
     (case up req of Inl e \<Rightarrow> ([req], Inl e) | Inr r \<Rightarrow> (req # fst (f r), snd (f r)))"
  by (simp add: await_def fetch_def split: sum.splits prod.splits)

lemma fst_settled: "fst (settled m) = []"
  by (simp add: settled_def)

lemma fst_resolved: "fst (resolved x) = []"
  by (simp add: resolved_def)

lemma snd_settled: "snd (settled m) = m"
  by (simp add: settled_def)

lemma snd_resolved: "snd (resolved x) = Inr x"
  by (simp add: resolved_def)

lemma checkRecentlyPlayed_sent_any:
  "fst (checkRecentlyPlayed up (JStr tok)) = [recently_played_request (authorization tok)]"
  by (simp add: checkRecentlyPlayed_def bearer_string await_settled await_fetch
        fst_settled fst_resolved split: sum.splits)

lemma getNowPlaying_idle:
  assumes "token_granted cfg up tok" and "nothing_playing up tok"
  shows "getNowPlaying cfg up =
           ([token_request cfg, now_playing_request (authorization tok),
             recently_played_request (authorization tok)],
            snd (checkRecentlyPlayed up (JStr tok)))"
proof -
  from assms(2) obtain r where r: "up (now_playing_request (authorization tok)) = Inr r"
    and c: "status r \<noteq> 200 \<or> (\<exists>song. json r = Inr song \<and> \<not> active_track song)"
    by (auto simp: nothing_playing_def active_track_iff split: sum.splits)
  have "getNowPlaying cfg up =
          after [token_request cfg, now_playing_request (authorization tok)]
            (checkRecentlyPlayed up (JStr tok))"
    unfolding getNowPlaying_granted [OF assms(1)]
    using c by (auto simp: await_fetch await_settled r after_def)
  then show ?thesis
    by (simp add: after_def checkRecentlyPlayed_sent_any)
qed

lemma checkRecentlyPlayed_responded:
  assumes "up (recently_played_request (authorization tok)) = Inr rr"
  shows "snd (checkRecentlyPlayed up (JStr tok)) =
           (if \<not> ok rr then Inr offline
            else and_then (json rr) (\<lambda>recentData.
                 and_then (and_then (get_prop recentData ''items'') (\<lambda>items.
                           and_then (index0 items) (\<lambda>first.
                             Inr (optional_prop first ''track'')))) (\<lambda>lastTrack.
                   if truthy lastTrack then last_played lastTrack else Inr offline)))"
  by (simp add: checkRecentlyPlayed_def bearer_string await_fetch await_settled assms
        snd_settled snd_resolved and_then_def split: sum.splits)

lemma handler_resolved:
  "snd (getNowPlaying cfg up) = Inr data \<Longrightarrow>
     handler cfg up =
       \<lparr>statusCode = 200,
        setHeaders = [(''Content-Type'', ''application/json''),
                      (''cache-control'', ''public, s-maxage=10, stale-while-revalidate=5'')],
        jsonBody = data\<rparr>"
  by (simp add: handler_def)

lemma handler_rejected:
  "snd (getNowPlaying cfg up) = Inl e \<Longrightarrow>
     handler cfg up =
       \<lparr>statusCode = 500, setHeaders = [],
        jsonBody = JObj [(''status'', JStr ''error''), (''isPlaying'', JBool False),
                         (''error'', JStr (message e))]\<rparr>"
  by (cases e) (simp_all add: handler_def)

lemma sublist_middle: "sublist ys (xs @ ys @ zs)"
  unfolding sublist_def by blast

text \<open>A property whose value is \<^verbatim>\<open>undefined\<close> does not appear in the serialised object.\<close>

lemma undefined_property_left_out:
  "JSON_stringify (JObj (kvs @ (k, JUndefined) # kvs')) = JSON_stringify (JObj (kvs @ kvs'))"
proof -
  have "stringify_properties (kvs @ (k, JUndefined) # kvs') = stringify_properties (kvs @ kvs')"
  proof (induction kvs)
    case Nil
    show ?case by simp
  next
    case (Cons kv kvs)
    obtain k' v' where "kv = (k', v')"
      by (cases kv)
    with Cons show ?case
      by (simp split: option.splits)
  qed
  then show ?thesis
    by simp
qed




lemma snd_rejected: "snd (rejected e) = Inl e"
  by (simp add: rejected_def)






lemma checkRecentlyPlayed_rev1_sent:
  "fst (checkRecentlyPlayed_rev1 up (JStr tok)) = [recently_played_request_rev1 (authorization tok)]"
  by (simp add: checkRecentlyPlayed_rev1_def bearer_string await_settled await_fetch
        fst_settled fst_resolved rejected_def split: sum.splits)

lemma checkRecentlyPlayed_rev1_not_ok:
  assumes "up (recently_played_request_rev1 (authorization tok)) = Inr rr" and "\<not> ok rr"
  shows "snd (checkRecentlyPlayed_rev1 up (JStr tok)) =
           Inl (Error (''Spotify recent-played API returned '' @ show_nat (status rr)))"
  by (simp add: checkRecentlyPlayed_rev1_def bearer_string await_fetch await_settled assms
        snd_rejected)

lemma getNowPlaying_rev1_granted:
  assumes "token_granted cfg up tok"
  shows "getNowPlaying_rev1 cfg up =
           after [token_request cfg]
             (await (fetch up (now_playing_request (authorization tok))) (\<lambda>nowPlayingResponse.
                if status nowPlayingResponse = 200
                then await (settled (json nowPlayingResponse)) (\<lambda>song.
                     await (settled (active_track_rev1 song)) (\<lambda>active.
                       if active then settled (playing song)
                       else checkRecentlyPlayed_rev1 up (JStr tok)))
                else checkRecentlyPlayed_rev1 up (JStr tok)))"
proof -
  from getAccessToken_granted [OF assms] obtain data
    where d: "getAccessToken cfg up = ([token_request cfg], Inr data)"
      and t: "field data ''access_token'' = JStr tok"
    by blast
  have ne: "tok \<noteq> []"
    using assms by (auto simp: token_granted_def split: sum.splits)
  have ds: "destructure data ''access_token'' = Inr (JStr tok)"
    using destructure_field [OF t] by simp
  show ?thesis
    unfolding getNowPlaying_rev1_def d
    by (simp add: await_resolved settled_def ds ne bearer_string after_def split: prod.splits)
qed

lemma active_track_rev1_defined:
  "\<not> nullish song \<Longrightarrow> active_track_rev1 song = Inr (active_track song)"
  by (cases song) (simp_all add: active_track_rev1_def active_track_def get_prop_def and_then_def)

lemma getNowPlaying_token_rejected:
  "getAccessToken cfg up = (sent, Inl e) \<Longrightarrow> getNowPlaying cfg up = (sent, Inl e)"
  by (simp add: getNowPlaying_def await_rejected)

lemma getNowPlaying_without_token:
  assumes "up (token_request cfg) = Inr response"
    and "ok response"
    and "json response = Inr data"
    and "field data ''access_token'' = JUndefined"
  shows "getNowPlaying cfg up =
           ([token_request cfg],
            Inl (if nullish data then cannot_destructure data ''access_token''
                 else Error ''Could not get access token''))"
proof -
  have t: "getAccessToken cfg up = ([token_request cfg], Inr data)"
    by (simp add: getAccessToken_def await_fetch await_settled assms snd_resolved fst_resolved)
  show ?thesis
    by (simp add: getNowPlaying_def t await_resolved await_settled destructure_def assms(4)
          rejected_def)
qed

lemma getAccessToken_not_ok:
  assumes "up (token_request cfg) = Inr response" and "\<not> ok response"
    and "json response = Inr data"
  shows "getAccessToken cfg up =
           ([token_request cfg], Inl (Error (token_error_message response data)))"
  by (simp add: getAccessToken_def await_fetch await_settled assms rejected_def)

lemma getAccessToken_not_json:
  assumes "up (token_request cfg) = Inr response" and "json response = Inl e"
  shows "getAccessToken cfg up = ([token_request cfg], Inl e)"
  by (simp add: getAccessToken_def await_fetch await_settled assms)

subsection \<open>Facts about the example upstream states\<close>

lemmas example_defs = upstream_of_def example_config_def token_response_def
  tokenless_response_def unauthorized_def bad_gateway_def no_content_def server_error_def
  example_song_def paused_song_def example_history_def empty_history_def
  playing_upstream_def idle_upstream_def paused_upstream_def failing_token_upstream_def
  token_request_def now_playing_request_def recently_played_request_def
  recently_played_request_rev1_def authorization_def
  TOKEN_ENDPOINT_def NOW_PLAYING_ENDPOINT_def RECENTLY_PLAYED_ENDPOINT_def
  RECENTLY_PLAYED_ENDPOINT_rev1_def

lemma granted_playing: "token_granted example_config playing_upstream ''BQDaccess''"
  by (simp add: token_granted_def ok_def example_defs)

lemma granted_idle: "token_granted example_config (idle_upstream r) ''BQDaccess''"
  by (simp add: token_granted_def ok_def example_defs)

lemma np_playing:
  "playing_upstream (now_playing_request (authorization ''BQDaccess''))
     = Inr \<lparr>status = 200, json = Inr example_song\<rparr>"
  by (simp add: example_defs)

lemma np_idle:
  "idle_upstream r (now_playing_request (authorization ''BQDaccess'')) = Inr no_content"
  by (simp add: example_defs)

lemma granted_paused: "token_granted example_config (paused_upstream r) ''BQDaccess''"
  by (simp add: token_granted_def ok_def example_defs)

lemma np_paused:
  "paused_upstream r (now_playing_request (authorization ''BQDaccess''))
     = Inr \<lparr>status = 200, json = Inr paused_song\<rparr>"
  by (simp add: example_defs)

lemma np_idle_nothing: "nothing_playing (idle_upstream r) ''BQDaccess''"
  by (simp add: nothing_playing_def np_idle no_content_def)

lemma recent_idle:
  "idle_upstream r (recently_played_request (authorization ''BQDaccess'')) = Inr r"
  by (simp add: example_defs)

lemma recent_rev1_idle:
  "idle_upstream r (recently_played_request_rev1 (authorization ''BQDaccess'')) = Inr r"
  by (simp add: example_defs)

lemma example_track_fields:
  "field example_track ''artists''
     = JArr [JObj [(''name'', JStr ''Daft Punk'')], JObj [(''name'', JStr ''Pharrell Williams'')]]"
  "field (field example_track ''album'') ''images''
     = JArr [JObj [(''url'', JStr ''https://i.scdn.co/image/1''), (''height'', JNum 640)],
             JObj [(''url'', JStr ''https://i.scdn.co/image/2''), (''height'', JNum 300)]]"
  "\<not> nullish (field example_track ''external_urls'')"
  "field example_track ''name'' = JStr ''Get Lucky''"
  "field (field example_track ''external_urls'') ''spotify''
     = JStr ''https://open.spotify.com/track/1''"
  "field example_track ''duration_ms'' = JNum 248000"
  by (simp_all add: example_track_def)

lemma example_artists_named:
  "\<forall>a\<in>set [JObj [(''name'', JStr ''Daft Punk'')], JObj [(''name'', JStr ''Pharrell Williams'')]].
     field a ''name'' = JStr (name_of_artist a)"
  by (simp add: name_of_artist_def)

lemma example_artist_names:
  "map name_of_artist [JObj [(''name'', JStr ''Daft Punk'')],
                       JObj [(''name'', JStr ''Pharrell Williams'')]]
     = [''Daft Punk'', ''Pharrell Williams'']"
  by (simp add: name_of_artist_def)

lemma not_ok_server_error: "\<not> ok server_error"
  by (simp add: ok_def server_error_def)

lemma failing_token_request:
  "failing_token_upstream t (token_request example_config) = Inr t"
  by (simp add: example_defs)

lemma not_ok_unauthorized: "\<not> ok unauthorized"
  by (simp add: ok_def unauthorized_def)

lemma not_ok_bad_gateway: "\<not> ok bad_gateway"
  by (simp add: ok_def bad_gateway_def)

lemma json_unauthorized: "json unauthorized = Inr (JObj [(''error'', JStr ''invalid_client'')])"
  by (simp add: unauthorized_def)

lemma json_bad_gateway:
  "json bad_gateway = Inl (SyntaxError ''Unexpected token < in JSON at position 0'')"
  by (simp add: bad_gateway_def)

lemma show_nat_examples:
  "show_nat (status unauthorized) = ''401''"
  "show_nat (status bad_gateway) = ''502''"
  "show_nat 10 = ''10''"
  "show_nat 5 = ''5''"
  unfolding unauthorized_def bad_gateway_def by code_simp+

lemma playing_upstream_result:
  "snd (getNowPlaying example_config playing_upstream) =
     Inr (JObj [(''status'', JStr ''playing''),
                (''isPlaying'', JBool True),
                (''trackName'', JStr ''Get Lucky''),
                (''artistName'', JStr ''Daft Punk, Pharrell Williams''),
                (''albumArtUrl'', JStr ''https://i.scdn.co/image/1''),
                (''songUrl'', JStr ''https://open.spotify.com/track/1''),
                (''progressMs'', JNum 5000),
                (''durationMs'', JNum 248000)])"
proof -
  have i: "field example_song ''item'' = example_track"
    and a: "active_track example_song"
    and p: "field example_song ''is_playing'' = JBool True"
      "field example_song ''progress_ms'' = JNum 5000"
    by (simp_all add: example_song_def active_track_def example_track_def)
  have "playing example_song =
     Inr (JObj [(''status'', JStr ''playing''),
                (''isPlaying'', JBool True),
                (''trackName'', JStr ''Get Lucky''),
                (''artistName'', JStr ''Daft Punk, Pharrell Williams''),
                (''albumArtUrl'', JStr ''https://i.scdn.co/image/1''),
                (''songUrl'', JStr ''https://open.spotify.com/track/1''),
                (''progressMs'', JNum 5000),
                (''durationMs'', JNum 248000)])"
    using playing_track [of example_song _ name_of_artist, unfolded i,
        OF example_track_fields(1) example_artists_named example_track_fields(2,3)]
    unfolding example_track_fields example_artist_names p
    by (simp add: optional_prop_def)
  then show ?thesis
    unfolding getNowPlaying_granted [OF granted_playing]
    by (simp add: await_fetch await_settled np_playing a after_def snd_settled)
qed

lemma tokenless_fields:
  "ok tokenless_response"
  "json tokenless_response
     = Inr (JObj [(''token_type'', JStr ''Bearer''), (''expires_in'', JNum 3600)])"
  "\<not> nullish (JObj [(''token_type'', JStr ''Bearer''), (''expires_in'', JNum 3600)])"
  "field (JObj [(''token_type'', JStr ''Bearer''), (''expires_in'', JNum 3600)]) ''access_token''
     = JUndefined"
  by (simp_all add: ok_def tokenless_response_def)

lemma null_token_fields:
  "ok null_token_response"
  "json null_token_response = Inr JNull"
  "nullish JNull"
  "field JNull ''access_token'' = JUndefined"
  by (simp_all add: ok_def null_token_response_def)


lemma bad_gateway_result:
  "snd (getNowPlaying example_config (failing_token_upstream bad_gateway))
     = Inl (SyntaxError ''Unexpected token < in JSON at position 0'')"
  using getNowPlaying_token_rejected
    [OF getAccessToken_not_json [where up = "failing_token_upstream bad_gateway",
        OF failing_token_request json_bad_gateway]]
  by simp


lemma granted_now_playing: "token_granted example_config (now_playing_upstream n) ''BQDaccess''"
  by (simp add: token_granted_def ok_def now_playing_upstream_def example_defs)

lemma np_now_playing:
  "now_playing_upstream n (now_playing_request (authorization ''BQDaccess'')) = Inr n"
  by (simp add: now_playing_upstream_def example_defs)

lemma getNowPlaying_at_song:
  "getNowPlaying example_config (now_playing_upstream (answer song)) =
     (if active_track song
      then ([token_request example_config, now_playing_request (authorization ''BQDaccess'')],
            playing song)
      else ([token_request example_config, now_playing_request (authorization ''BQDaccess''),
             recently_played_request (authorization ''BQDaccess'')],
            snd (checkRecentlyPlayed (now_playing_upstream (answer song)) (JStr ''BQDaccess''))))"
  unfolding getNowPlaying_granted [OF granted_now_playing]
  by (simp add: await_fetch await_settled np_now_playing answer_def after_def
        fst_settled snd_settled checkRecentlyPlayed_sent_any)

lemma getNowPlaying_unparsable:
  "getNowPlaying example_config (now_playing_upstream unparsable) =
     ([token_request example_config, now_playing_request (authorization ''BQDaccess'')],
      Inl (SyntaxError ''Unexpected end of JSON input''))"
  unfolding getNowPlaying_granted [OF granted_now_playing]
  by (simp add: await_fetch await_settled np_now_playing unparsable_def after_def)

lemma active_examples:
  "active_track (active_song bare_track)"
  "active_track (active_song track_without_album)"
  "active_track (active_song track_without_urls)"
  "active_track (active_song track_with_null_artist)"
  "active_track numeric_song"
  by (simp_all add: active_track_def active_song_def bare_track_def track_without_album_def
        track_without_urls_def track_with_null_artist_def numeric_song_def example_track_def)

lemma playing_examples:
  "playing (active_song bare_track) = Inl (cannot_read JUndefined ''map'')"
  "playing (active_song track_without_album) = Inl (cannot_read JUndefined ''images'')"
  "playing (active_song track_without_urls) = Inl (cannot_read JUndefined ''spotify'')"
  "playing (active_song track_with_null_artist) = Inl (cannot_read JNull ''name'')"
  by (simp_all add: playing_def artistName_def albumArtUrl_def songUrl_def and_then_def
        get_prop_def join_def active_song_def bare_track_def track_without_album_def
        track_without_urls_def track_with_null_artist_def)

lemma ok_examples: "ok (answer v)" "ok unparsable" "json (answer v) = Inr v"
  "json unparsable = Inl (SyntaxError ''Unexpected end of JSON input'')"
  by (simp_all add: ok_def answer_def unparsable_def)

lemma getNowPlaying_at_history:
  "snd (getNowPlaying example_config (idle_upstream (answer recentData))) =
     and_then (and_then (get_prop recentData ''items'') (\<lambda>items.
               and_then (index0 items) (\<lambda>first. Inr (optional_prop first ''track''))))
       (\<lambda>lastTrack. if truthy lastTrack then last_played lastTrack else Inr offline)"
  unfolding getNowPlaying_idle [OF granted_idle np_idle_nothing]
  by (simp add: checkRecentlyPlayed_responded [of "idle_upstream (answer recentData)",
        OF recent_idle] ok_examples and_then_def)

lemma getNowPlaying_history_unparsable:
  "snd (getNowPlaying example_config (idle_upstream unparsable)) =
     Inl (SyntaxError ''Unexpected end of JSON input'')"
  unfolding getNowPlaying_idle [OF granted_idle np_idle_nothing]
  by (simp add: checkRecentlyPlayed_responded [of "idle_upstream unparsable",
        OF recent_idle] ok_examples and_then_def)

lemma last_played_bare: "last_played bare_track = Inl (cannot_read JUndefined ''map'')"
  by (simp add: last_played_def artistName_def and_then_def bare_track_def)


subsection \<open>The specified properties\<close>

text \<open>
  \<^bold>\<open>C1.\<close> Let the token be granted and the currently-playing request be answered.
  If the answer has status 200 and a JSON body whose \<^verbatim>\<open>is_playing\<close> is
  \<^verbatim>\<open>true\<close> and whose \<^verbatim>\<open>item\<close> is a track (type \<^verbatim>\<open>track\<close>, an array
  of artists with their names, an album with its array of images, its external URLs), then
  \<^verbatim>\<open>getNowPlaying\<close> resolves, after these two requests, to the result with status
  \<^verbatim>\<open>playing\<close>, \<^verbatim>\<open>isPlaying\<close> true, the track's name, the artists' names joined
  by a comma and a space, the URL of the first album image (\<^verbatim>\<open>undefined\<close> when there
  is none), the track's external URL, the progress and the duration. If the answer has any
  other status (204, 404, ...) or is a 200 whose JSON body has an \<^verbatim>\<open>is_playing\<close> that
  is not truthy or an item that is not of type \<^verbatim>\<open>track\<close>, nothing is raised for it:
  the recently-played request is sent next and \<^verbatim>\<open>getNowPlaying\<close> settles as that
  second part of the function does. If the answer is a 200 whose body is not JSON,
  \<^verbatim>\<open>getNowPlaying\<close> raises the parse error after these two requests.
\<close>

theorem getNowPlaying_playing_or_falls_through:
  assumes tok: "token_granted cfg up tok"
    and np: "up (now_playing_request (authorization tok)) = Inr nowPlayingResponse"
  shows "(status nowPlayingResponse = 200
            \<and> json nowPlayingResponse = Inr song
            \<and> field song ''is_playing'' = JBool True
            \<and> field (field song ''item'') ''type'' = JStr ''track''
            \<and> field (field song ''item'') ''artists'' = JArr as
            \<and> (\<forall>a\<in>set as. field a ''name'' = JStr (name_of a))
            \<and> field (field (field song ''item'') ''album'') ''images'' = JArr imgs
            \<and> \<not> nullish (field (field song ''item'') ''external_urls'')
          \<longrightarrow> getNowPlaying cfg up =
                ([token_request cfg, now_playing_request (authorization tok)],
                 Inr (JObj [(''status'', JStr ''playing''),
                            (''isPlaying'', JBool True),
                            (''trackName'', field (field song ''item'') ''name''),
                            (''artistName'', JStr (join_strs '', '' (map name_of as))),
                            (''albumArtUrl'',
                               (case imgs of [] \<Rightarrow> JUndefined
                                | img # _ \<Rightarrow> optional_prop img ''url'')),
                            (''songUrl'',
                               field (field (field song ''item'') ''external_urls'') ''spotify''),
                            (''progressMs'', field song ''progress_ms''),
                            (''durationMs'', field (field song ''item'') ''duration_ms'')])))
       \<and> (status nowPlayingResponse \<noteq> 200
            \<or> json nowPlayingResponse = Inr song
               \<and> (\<not> truthy (field song ''is_playing'')
                   \<or> field (field song ''item'') ''type'' \<noteq> JStr ''track'')
          \<longrightarrow> getNowPlaying cfg up =
                ([token_request cfg, now_playing_request (authorization tok),
                  recently_played_request (authorization tok)],
                 snd (checkRecentlyPlayed up (JStr tok))))
       \<and> (status nowPlayingResponse = 200 \<and> json nowPlayingResponse = Inl e
          \<longrightarrow> getNowPlaying cfg up =
                ([token_request cfg, now_playing_request (authorization tok)], Inl e))"
proof (intro conjI impI)
  assume h: "status nowPlayingResponse = 200
            \<and> json nowPlayingResponse = Inr song
            \<and> field song ''is_playing'' = JBool True
            \<and> field (field song ''item'') ''type'' = JStr ''track''
            \<and> field (field song ''item'') ''artists'' = JArr as
            \<and> (\<forall>a\<in>set as. field a ''name'' = JStr (name_of a))
            \<and> field (field (field song ''item'') ''album'') ''images'' = JArr imgs
            \<and> \<not> nullish (field (field song ''item'') ''external_urls'')"
  then have act: "active_track song"
    by (simp add: active_track_iff)
  from h have pl: "playing song = Inr (JObj [(''status'', JStr ''playing''),
                      (''isPlaying'', field song ''is_playing''),
                      (''trackName'', field (field song ''item'') ''name''),
                      (''artistName'', JStr (join_strs '', '' (map name_of as))),
                      (''albumArtUrl'',
                         (case imgs of [] \<Rightarrow> JUndefined | img # _ \<Rightarrow> optional_prop img ''url'')),
                      (''songUrl'', field (field (field song ''item'') ''external_urls'') ''spotify''),
                      (''progressMs'', field song ''progress_ms''),
                      (''durationMs'', field (field song ''item'') ''duration_ms'')])"
    by (intro playing_track) simp_all
  from h have st: "status nowPlayingResponse = 200" and js: "json nowPlayingResponse = Inr song"
    and ip: "field song ''is_playing'' = JBool True"
    by simp_all
  show "getNowPlaying cfg up =
                ([token_request cfg, now_playing_request (authorization tok)],
                 Inr (JObj [(''status'', JStr ''playing''),
                            (''isPlaying'', JBool True),
                            (''trackName'', field (field song ''item'') ''name''),
                            (''artistName'', JStr (join_strs '', '' (map name_of as))),
                            (''albumArtUrl'',
                               (case imgs of [] \<Rightarrow> JUndefined
                                | img # _ \<Rightarrow> optional_prop img ''url'')),
                            (''songUrl'',
                               field (field (field song ''item'') ''external_urls'') ''spotify''),
                            (''progressMs'', field song ''progress_ms''),
                            (''durationMs'', field (field song ''item'') ''duration_ms'')]))"
    unfolding getNowPlaying_granted [OF tok]
    by (simp add: promise_simps np st js act pl ip after_def)
next
  assume h: "status nowPlayingResponse \<noteq> 200
            \<or> json nowPlayingResponse = Inr song
               \<and> (\<not> truthy (field song ''is_playing'')
                   \<or> field (field song ''item'') ''type'' \<noteq> JStr ''track'')"
  have "getNowPlaying cfg up =
          after [token_request cfg, now_playing_request (authorization tok)]
            (checkRecentlyPlayed up (JStr tok))"
    unfolding getNowPlaying_granted [OF tok]
    using h
    by (auto simp: promise_simps np after_def active_track_iff split: prod.splits)
  then show "getNowPlaying cfg up =
                ([token_request cfg, now_playing_request (authorization tok),
                  recently_played_request (authorization tok)],
                 snd (checkRecentlyPlayed up (JStr tok)))"
    by (simp add: after_def checkRecentlyPlayed_sent_any)
next
  assume h: "status nowPlayingResponse = 200 \<and> json nowPlayingResponse = Inl e"
  show "getNowPlaying cfg up =
          ([token_request cfg, now_playing_request (authorization tok)], Inl e)"
    unfolding getNowPlaying_granted [OF tok]
    by (simp add: await_fetch await_settled np h after_def)
qed

theorem getNowPlaying_playing_or_falls_through_witness:
  "getNowPlaying example_config playing_upstream =
     ([token_request example_config, now_playing_request (authorization ''BQDaccess'')],
      Inr (JObj [(''status'', JStr ''playing''),
                 (''isPlaying'', JBool True),
                 (''trackName'', JStr ''Get Lucky''),
                 (''artistName'', JStr ''Daft Punk, Pharrell Williams''),
                 (''albumArtUrl'', JStr ''https://i.scdn.co/image/1''),
                 (''songUrl'', JStr ''https://open.spotify.com/track/1''),
                 (''progressMs'', JNum 5000),
                 (''durationMs'', JNum 248000)]))
   \<and> getNowPlaying example_config (idle_upstream server_error) =
     ([token_request example_config, now_playing_request (authorization ''BQDaccess''),
       recently_played_request (authorization ''BQDaccess'')],
      snd (checkRecentlyPlayed (idle_upstream server_error) (JStr ''BQDaccess'')))
   \<and> getNowPlaying example_config (paused_upstream server_error) =
     ([token_request example_config, now_playing_request (authorization ''BQDaccess''),
       recently_played_request (authorization ''BQDaccess'')],
      snd (checkRecentlyPlayed (paused_upstream server_error) (JStr ''BQDaccess'')))
   \<and> getNowPlaying example_config (now_playing_upstream unparsable) =
     ([token_request example_config, now_playing_request (authorization ''BQDaccess'')],
      Inl (SyntaxError ''Unexpected end of JSON input''))"
proof -
  have a: "status \<lparr>status = 200, json = Inr example_song\<rparr> = 200
            \<and> json \<lparr>status = 200, json = Inr example_song\<rparr> = Inr example_song
            \<and> field example_song ''is_playing'' = JBool True
            \<and> field (field example_song ''item'') ''type'' = JStr ''track''
            \<and> field (field example_song ''item'') ''artists''
                = JArr [JObj [(''name'', JStr ''Daft Punk'')],
                        JObj [(''name'', JStr ''Pharrell Williams'')]]
            \<and> (\<forall>a\<in>set [JObj [(''name'', JStr ''Daft Punk'')],
                        JObj [(''name'', JStr ''Pharrell Williams'')]].
                   field a ''name'' = JStr (name_of_artist a))
            \<and> field (field (field example_song ''item'') ''album'') ''images''
                = JArr [JObj [(''url'', JStr ''https://i.scdn.co/image/1''),
                                                      (''height'', JNum 640)],
                                                JObj [(''url'', JStr ''https://i.scdn.co/image/2''),
                                                      (''height'', JNum 300)]]
            \<and> \<not> nullish (field (field example_song ''item'') ''external_urls'')"
    by (simp add: example_song_def example_track_def name_of_artist_def)
  have b: "status no_content \<noteq> 200"
    by (simp add: no_content_def)
  have f: "field (field example_song ''item'') ''name'' = JStr ''Get Lucky''"
    "field (field (field example_song ''item'') ''external_urls'') ''spotify''
       = JStr ''https://open.spotify.com/track/1''"
    "field example_song ''progress_ms'' = JNum 5000"
    "field (field example_song ''item'') ''duration_ms'' = JNum 248000"
    by (simp_all add: example_song_def example_track_def)
  note t1 = getNowPlaying_playing_or_falls_through [OF granted_playing np_playing,
      where song = example_song and name_of = name_of_artist
        and as = "[JObj [(''name'', JStr ''Daft Punk'')],
                   JObj [(''name'', JStr ''Pharrell Williams'')]]"
        and imgs = "[JObj [(''url'', JStr ''https://i.scdn.co/image/1''), (''height'', JNum 640)],
                     JObj [(''url'', JStr ''https://i.scdn.co/image/2''), (''height'', JNum 300)]]",
      THEN conjunct1, THEN mp, OF a]
  have n: "map name_of_artist [JObj [(''name'', JStr ''Daft Punk'')],
                   JObj [(''name'', JStr ''Pharrell Williams'')]]
            = [''Daft Punk'', ''Pharrell Williams'']"
    by (simp add: name_of_artist_def)
  have 1: "getNowPlaying example_config playing_upstream =
     ([token_request example_config, now_playing_request (authorization ''BQDaccess'')],
      Inr (JObj [(''status'', JStr ''playing''),
                 (''isPlaying'', JBool True),
                 (''trackName'', JStr ''Get Lucky''),
                 (''artistName'', JStr ''Daft Punk, Pharrell Williams''),
                 (''albumArtUrl'', JStr ''https://i.scdn.co/image/1''),
                 (''songUrl'', JStr ''https://open.spotify.com/track/1''),
                 (''progressMs'', JNum 5000),
                 (''durationMs'', JNum 248000)]))"
    unfolding t1 f n by (simp add: optional_prop_def)
  note 2 = getNowPlaying_playing_or_falls_through [OF granted_idle np_idle,
      THEN conjunct2, THEN conjunct1, THEN mp, OF disjI1, OF b]
  have c: "json \<lparr>status = 200, json = Inr paused_song\<rparr> = Inr paused_song
            \<and> (\<not> truthy (field paused_song ''is_playing'')
                \<or> field (field paused_song ''item'') ''type'' \<noteq> JStr ''track'')"
    by (simp add: paused_song_def)
  note 3 = getNowPlaying_playing_or_falls_through [OF granted_paused np_paused,
      where song = paused_song, THEN conjunct2, THEN conjunct1, THEN mp, OF disjI2, OF c]
  have d: "status unparsable = 200
            \<and> json unparsable = Inl (SyntaxError ''Unexpected end of JSON input'')"
    by (simp add: unparsable_def)
  note 4 = getNowPlaying_playing_or_falls_through [OF granted_now_playing np_now_playing,
      THEN conjunct2, THEN conjunct2, THEN mp, OF d]
  from 1 2 3 4 show ?thesis
    by (intro conjI)
qed

text \<open>
  Bodies with status 200, \<^verbatim>\<open>is_playing\<close> true and an item of type
  \<^verbatim>\<open>track\<close> on which \<^verbatim>\<open>getNowPlaying\<close> raises a TypeError: an item without
  \<^verbatim>\<open>artists\<close>, without \<^verbatim>\<open>album\<close>, without \<^verbatim>\<open>external_urls\<close>, with
  \<^verbatim>\<open>null\<close> for an artist. And a
  200 whose body is not JSON: the parse error is raised and no recently-played request
  is sent.
\<close>

theorem getNowPlaying_playing_counterexample:
  "field (active_song bare_track) ''is_playing'' = JBool True
   \<and> field (field (active_song bare_track) ''item'') ''type'' = JStr ''track''
   \<and> getNowPlaying example_config (now_playing_upstream (answer (active_song bare_track))) =
       ([token_request example_config, now_playing_request (authorization ''BQDaccess'')],
        Inl (cannot_read JUndefined ''map''))
   \<and> getNowPlaying example_config
         (now_playing_upstream (answer (active_song track_without_album))) =
       ([token_request example_config, now_playing_request (authorization ''BQDaccess'')],
        Inl (cannot_read JUndefined ''images''))
   \<and> getNowPlaying example_config
         (now_playing_upstream (answer (active_song track_without_urls))) =
       ([token_request example_config, now_playing_request (authorization ''BQDaccess'')],
        Inl (cannot_read JUndefined ''spotify''))
   \<and> getNowPlaying example_config
         (now_playing_upstream (answer (active_song track_with_null_artist))) =
       ([token_request example_config, now_playing_request (authorization ''BQDaccess'')],
        Inl (cannot_read JNull ''name''))
   \<and> status unparsable = 200
   \<and> getNowPlaying example_config (now_playing_upstream unparsable) =
       ([token_request example_config, now_playing_request (authorization ''BQDaccess'')],
        Inl (SyntaxError ''Unexpected end of JSON input''))"
proof -
  have a: "field (active_song bare_track) ''is_playing'' = JBool True"
    and b: "field (field (active_song bare_track) ''item'') ''type'' = JStr ''track''"
    and c: "status unparsable = 200"
    by (simp_all add: active_song_def bare_track_def unparsable_def)
  have d: "getNowPlaying example_config (now_playing_upstream (answer (active_song bare_track))) =
       ([token_request example_config, now_playing_request (authorization ''BQDaccess'')],
        Inl (cannot_read JUndefined ''map''))"
    unfolding getNowPlaying_at_song playing_examples by (simp only: active_examples if_True)
  have e: "getNowPlaying example_config
         (now_playing_upstream (answer (active_song track_without_album))) =
       ([token_request example_config, now_playing_request (authorization ''BQDaccess'')],
        Inl (cannot_read JUndefined ''images''))"
    unfolding getNowPlaying_at_song playing_examples by (simp only: active_examples if_True)
  have f: "getNowPlaying example_config
         (now_playing_upstream (answer (active_song track_without_urls))) =
       ([token_request example_config, now_playing_request (authorization ''BQDaccess'')],
        Inl (cannot_read JUndefined ''spotify''))"
    unfolding getNowPlaying_at_song playing_examples by (simp only: active_examples if_True)
  have g: "getNowPlaying example_config
         (now_playing_upstream (answer (active_song track_with_null_artist))) =
       ([token_request example_config, now_playing_request (authorization ''BQDaccess'')],
        Inl (cannot_read JNull ''name''))"
    unfolding getNowPlaying_at_song playing_examples by (simp only: active_examples if_True)
  from a b d e f g c getNowPlaying_unparsable show ?thesis
    by (intro conjI)
qed

text \<open>
  \<^bold>\<open>C2.\<close> Let the token be granted, nothing be playing, and the recently-played
  request be answered with a 2xx status and a JSON body whose \<^verbatim>\<open>items\<close> is an array.
  If the array's first item carries a track, \<^verbatim>\<open>getNowPlaying\<close> resolves to the result
  with status \<^verbatim>\<open>last_played\<close>, \<^verbatim>\<open>isPlaying\<close> false, \<^verbatim>\<open>progressMs\<close> 0
  and the name, joined artist names, first album image URL, external URL and duration of
  that track. If the array is empty, it resolves to
  \<^verbatim>\<open>{status: 'offline', isPlaying: false}\<close>.
\<close>

theorem getNowPlaying_recently_played:
  assumes "token_granted cfg up tok"
    and "nothing_playing up tok"
    and "up (recently_played_request (authorization tok)) = Inr recentResponse"
    and "ok recentResponse"
    and "json recentResponse = Inr recentData"
    and "field recentData ''items'' = JArr items"
  shows "(items = first # rest
            \<and> field first ''track'' = lastTrack
            \<and> field lastTrack ''artists'' = JArr as
            \<and> (\<forall>a\<in>set as. field a ''name'' = JStr (name_of a))
            \<and> field (field lastTrack ''album'') ''images'' = JArr imgs
            \<and> \<not> nullish (field lastTrack ''external_urls'')
          \<longrightarrow> snd (getNowPlaying cfg up) =
                Inr (JObj [(''status'', JStr ''last_played''),
                           (''isPlaying'', JBool False),
                           (''trackName'', field lastTrack ''name''),
                           (''artistName'', JStr (join_strs '', '' (map name_of as))),
                           (''albumArtUrl'',
                              (case imgs of [] \<Rightarrow> JUndefined
                               | img # _ \<Rightarrow> optional_prop img ''url'')),
                           (''songUrl'', field (field lastTrack ''external_urls'') ''spotify''),
                           (''progressMs'', JNum 0),
                           (''durationMs'', field lastTrack ''duration_ms'')]))
       \<and> (items = []
          \<longrightarrow> snd (getNowPlaying cfg up) =
                Inr (JObj [(''status'', JStr ''offline''), (''isPlaying'', JBool False)]))"
proof -
  have nn: "\<not> nullish recentData"
    using assms(6) field_defined by blast
  have s: "snd (getNowPlaying cfg up) =
             and_then (index0 (JArr items)) (\<lambda>first.
               if truthy (optional_prop first ''track'')
               then last_played (optional_prop first ''track'') else Inr offline)"
    unfolding getNowPlaying_idle [OF assms(1,2)]
    by (simp add: checkRecentlyPlayed_responded [of up tok, OF assms(3)] assms(4,5,6) nn
          and_then_def get_prop_def)
  show ?thesis
  proof (intro conjI impI)
    assume h: "items = first # rest
            \<and> field first ''track'' = lastTrack
            \<and> field lastTrack ''artists'' = JArr as
            \<and> (\<forall>a\<in>set as. field a ''name'' = JStr (name_of a))
            \<and> field (field lastTrack ''album'') ''images'' = JArr imgs
            \<and> \<not> nullish (field lastTrack ''external_urls'')"
    then have t: "\<not> nullish lastTrack"
      using field_defined [of lastTrack "''artists''"] by simp
    with h have f: "\<not> nullish first"
      using field_nullish [of first "''track''"] by auto
    from t h have tr: "truthy lastTrack"
      by (cases lastTrack) simp_all
    have lp: "last_played lastTrack =
           Inr (JObj [(''status'', JStr ''last_played''),
                      (''isPlaying'', JBool False),
                      (''trackName'', field lastTrack ''name''),
                      (''artistName'', JStr (join_strs '', '' (map name_of as))),
                      (''albumArtUrl'',
                         (case imgs of [] \<Rightarrow> JUndefined | img # _ \<Rightarrow> optional_prop img ''url'')),
                      (''songUrl'', field (field lastTrack ''external_urls'') ''spotify''),
                      (''progressMs'', JNum 0),
                      (''durationMs'', field lastTrack ''duration_ms'')])"
      using h by (intro last_played_track) simp_all
    show "snd (getNowPlaying cfg up) =
                Inr (JObj [(''status'', JStr ''last_played''),
                           (''isPlaying'', JBool False),
                           (''trackName'', field lastTrack ''name''),
                           (''artistName'', JStr (join_strs '', '' (map name_of as))),
                           (''albumArtUrl'',
                              (case imgs of [] \<Rightarrow> JUndefined
                               | img # _ \<Rightarrow> optional_prop img ''url'')),
                           (''songUrl'', field (field lastTrack ''external_urls'') ''spotify''),
                           (''progressMs'', JNum 0),
                           (''durationMs'', field lastTrack ''duration_ms'')])"
      using h f tr by (simp add: s and_then_def optional_prop_def lp)
  next
    assume "items = []"
    then show "snd (getNowPlaying cfg up) =
                 Inr (JObj [(''status'', JStr ''offline''), (''isPlaying'', JBool False)])"
      by (simp add: s and_then_def optional_prop_def offline_def)
  qed
qed

theorem getNowPlaying_recently_played_witness:
  "snd (getNowPlaying example_config (idle_upstream \<lparr>status = 200, json = Inr example_history\<rparr>)) =
     Inr (JObj [(''status'', JStr ''last_played''),
                (''isPlaying'', JBool False),
                (''trackName'', JStr ''Get Lucky''),
                (''artistName'', JStr ''Daft Punk, Pharrell Williams''),
                (''albumArtUrl'', JStr ''https://i.scdn.co/image/1''),
                (''songUrl'', JStr ''https://open.spotify.com/track/1''),
                (''progressMs'', JNum 0),
                (''durationMs'', JNum 248000)])
   \<and> snd (getNowPlaying example_config (idle_upstream \<lparr>status = 200, json = Inr empty_history\<rparr>)) =
     Inr (JObj [(''status'', JStr ''offline''), (''isPlaying'', JBool False)])"
proof -
  have k: "ok \<lparr>status = 200, json = Inr v\<rparr>" for v
    by (simp add: ok_def)
  have j: "json \<lparr>status = 200, json = Inr v\<rparr> = Inr v" for v
    by simp
  have i1: "field example_history ''items'' = JArr [JObj [(''track'', example_track)]]"
    by (simp add: example_history_def)
  have i2: "field empty_history ''items'' = JArr []"
    by (simp add: empty_history_def)
  have a: "[JObj [(''track'', example_track)]] = JObj [(''track'', example_track)] # []
            \<and> field (JObj [(''track'', example_track)]) ''track'' = example_track
            \<and> field example_track ''artists''
                = JArr [JObj [(''name'', JStr ''Daft Punk'')],
                        JObj [(''name'', JStr ''Pharrell Williams'')]]
            \<and> (\<forall>a\<in>set [JObj [(''name'', JStr ''Daft Punk'')],
                          JObj [(''name'', JStr ''Pharrell Williams'')]].
                   field a ''name'' = JStr (name_of_artist a))
            \<and> field (field example_track ''album'') ''images''
                = JArr [JObj [(''url'', JStr ''https://i.scdn.co/image/1''), (''height'', JNum 640)],
                        JObj [(''url'', JStr ''https://i.scdn.co/image/2''), (''height'', JNum 300)]]
            \<and> \<not> nullish (field example_track ''external_urls'')"
    using example_track_fields(1,2,3) example_artists_named by simp
  note t1 = getNowPlaying_recently_played [OF granted_idle np_idle_nothing recent_idle k j i1,
      THEN conjunct1, THEN mp, OF a]
  have 1: "snd (getNowPlaying example_config (idle_upstream \<lparr>status = 200, json = Inr example_history\<rparr>)) =
     Inr (JObj [(''status'', JStr ''last_played''),
                (''isPlaying'', JBool False),
                (''trackName'', JStr ''Get Lucky''),
                (''artistName'', JStr ''Daft Punk, Pharrell Williams''),
                (''albumArtUrl'', JStr ''https://i.scdn.co/image/1''),
                (''songUrl'', JStr ''https://open.spotify.com/track/1''),
                (''progressMs'', JNum 0),
                (''durationMs'', JNum 248000)])"
    unfolding t1 example_track_fields example_artist_names by (simp add: optional_prop_def)
  note 2 = getNowPlaying_recently_played [OF granted_idle np_idle_nothing recent_idle k j i2,
      THEN conjunct2, THEN mp, OF refl]
  from 1 2 show ?thesis
    by (rule conjI)
qed

text \<open>
  Recently-played answers with a 2xx status on which \<^verbatim>\<open>getNowPlaying\<close> raises
  and the handler replies 500: a JSON body without \<^verbatim>\<open>items\<close>, a body that is not
  JSON, a first item whose track has no \<^verbatim>\<open>artists\<close>. And an answer whose second
  item carries a track while its first does not: only \<^verbatim>\<open>items[0]\<close> is looked at and
  the result is \<^verbatim>\<open>offline\<close>.
\<close>

theorem getNowPlaying_recently_played_counterexample:
  "ok (answer (JObj []))
   \<and> snd (getNowPlaying example_config (idle_upstream (answer (JObj [])))) =
       Inl (cannot_read JUndefined ''0'')
   \<and> statusCode (handler example_config (idle_upstream (answer (JObj [])))) = 500
   \<and> ok unparsable
   \<and> snd (getNowPlaying example_config (idle_upstream unparsable)) =
       Inl (SyntaxError ''Unexpected end of JSON input'')
   \<and> snd (getNowPlaying example_config (idle_upstream (answer (history_of bare_track)))) =
       Inl (cannot_read JUndefined ''map'')
   \<and> snd (getNowPlaying example_config (idle_upstream (answer stale_history))) =
       Inr (JObj [(''status'', JStr ''offline''), (''isPlaying'', JBool False)])"
proof -
  have a: "snd (getNowPlaying example_config (idle_upstream (answer (JObj [])))) =
       Inl (cannot_read JUndefined ''0'')"
    unfolding getNowPlaying_at_history by (simp add: get_prop_def and_then_def)
  have b: "statusCode (handler example_config (idle_upstream (answer (JObj [])))) = 500"
    by (simp add: handler_rejected [OF a])
  have c: "snd (getNowPlaying example_config (idle_upstream (answer (history_of bare_track)))) =
       Inl (cannot_read JUndefined ''map'')"
    unfolding getNowPlaying_at_history
    by (simp add: get_prop_def and_then_def history_of_def optional_prop_def last_played_bare)
      (simp add: bare_track_def)
  have d: "snd (getNowPlaying example_config (idle_upstream (answer stale_history))) =
       Inr (JObj [(''status'', JStr ''offline''), (''isPlaying'', JBool False)])"
    unfolding getNowPlaying_at_history
    by (simp add: get_prop_def and_then_def stale_history_def optional_prop_def offline_def)
  from ok_examples(1) a b ok_examples(2) getNowPlaying_history_unparsable c d show ?thesis
    by (intro conjI)
qed

text \<open>
  \<^bold>\<open>C3.\<close> Let the token be granted and nothing be playing. If the recently-played
  request is answered with a status outside 200 to 299, \<^verbatim>\<open>getNowPlaying\<close> does not
  raise: it resolves to \<^verbatim>\<open>{status: 'offline', isPlaying: false}\<close>, and the handler
  replies with status 200 and that body.
\<close>

theorem recently_played_failure_is_offline:
  assumes "token_granted cfg up tok"
    and "nothing_playing up tok"
    and "up (recently_played_request (authorization tok)) = Inr recentResponse"
    and "\<not> ok recentResponse"
  shows "snd (getNowPlaying cfg up) =
           Inr (JObj [(''status'', JStr ''offline''), (''isPlaying'', JBool False)])
       \<and> statusCode (handler cfg up) = 200
       \<and> jsonBody (handler cfg up) =
           JObj [(''status'', JStr ''offline''), (''isPlaying'', JBool False)]"
proof -
  have s: "snd (getNowPlaying cfg up) =
             Inr (JObj [(''status'', JStr ''offline''), (''isPlaying'', JBool False)])"
    unfolding getNowPlaying_idle [OF assms(1,2)]
    by (simp add: checkRecentlyPlayed_responded [of up tok, OF assms(3)] assms(4) offline_def)
  show ?thesis
    by (simp add: s handler_resolved [OF s])
qed

theorem recently_played_failure_is_offline_witness:
  "snd (getNowPlaying example_config (idle_upstream server_error)) =
     Inr (JObj [(''status'', JStr ''offline''), (''isPlaying'', JBool False)])
   \<and> statusCode (handler example_config (idle_upstream server_error)) = 200
   \<and> jsonBody (handler example_config (idle_upstream server_error)) =
       JObj [(''status'', JStr ''offline''), (''isPlaying'', JBool False)]"
  by (rule recently_played_failure_is_offline
        [OF granted_idle np_idle_nothing recent_idle not_ok_server_error])

text \<open>
  What a token answer with a status outside 200 to 299 leads to. With a JSON body,
  \<^verbatim>\<open>getAccessToken\<close> rejects with the error whose message holds the status in
  decimal and the serialised body; with a body that is not JSON it rejects with the error
  of \<^verbatim>\<open>response.json()\<close>. Either way the token request is the only request sent and
  the handler replies with status 500 and the body
  \<^verbatim>\<open>{status: 'error', isPlaying: false, error: message}\<close>.
\<close>

lemma token_failure_replies:
  assumes "up (token_request cfg) = Inr response"
    and "\<not> ok response"
  shows "(json response = Inr data
          \<longrightarrow> getAccessToken cfg up =
                ([token_request cfg], Inl (Error (token_error_message response data)))
            \<and> sublist (show_nat (status response)) (token_error_message response data)
            \<and> sublist (stringified data) (token_error_message response data)
            \<and> token_error_message response data \<noteq> []
            \<and> requests cfg up = [token_request cfg]
            \<and> handler cfg up =
                \<lparr>statusCode = 500, setHeaders = [],
                 jsonBody = JObj [(''status'', JStr ''error''), (''isPlaying'', JBool False),
                                  (''error'', JStr (token_error_message response data))]\<rparr>)
       \<and> (json response = Inl e
          \<longrightarrow> getAccessToken cfg up = ([token_request cfg], Inl e)
            \<and> requests cfg up = [token_request cfg]
            \<and> handler cfg up =
                \<lparr>statusCode = 500, setHeaders = [],
                 jsonBody = JObj [(''status'', JStr ''error''), (''isPlaying'', JBool False),
                                  (''error'', JStr (message e))]\<rparr>)"
proof (intro conjI impI)
  assume j: "json response = Inr data"
  let ?m = "token_error_message response data"
  show t: "getAccessToken cfg up = ([token_request cfg], Inl (Error ?m))"
    by (rule getAccessToken_not_ok [of up cfg, OF assms j])
  have g: "getNowPlaying cfg up = ([token_request cfg], Inl (Error ?m))"
    by (rule getNowPlaying_token_rejected [OF t])
  show "requests cfg up = [token_request cfg]"
    by (simp add: requests_def g)
  show "handler cfg up =
          \<lparr>statusCode = 500, setHeaders = [],
           jsonBody = JObj [(''status'', JStr ''error''), (''isPlaying'', JBool False),
                            (''error'', JStr ?m)]\<rparr>"
    using handler_rejected [of cfg up "Error ?m"] by (simp add: g)
  show "sublist (show_nat (status response)) ?m"
    unfolding token_error_message_def by (rule sublist_middle)
  show "sublist (stringified data) ?m"
    using sublist_middle [of "stringified data"
        "''Spotify token API returned '' @ show_nat (status response) @ '': ''" "[]"]
    by (simp add: token_error_message_def)
  show "?m \<noteq> []"
    by (simp add: token_error_message_def)
next
  assume j: "json response = Inl e"
  show t: "getAccessToken cfg up = ([token_request cfg], Inl e)"
    by (rule getAccessToken_not_json [of up cfg, OF assms(1) j])
  have g: "getNowPlaying cfg up = ([token_request cfg], Inl e)"
    by (rule getNowPlaying_token_rejected [OF t])
  show "requests cfg up = [token_request cfg]"
    by (simp add: requests_def g)
  show "handler cfg up =
          \<lparr>statusCode = 500, setHeaders = [],
           jsonBody = JObj [(''status'', JStr ''error''), (''isPlaying'', JBool False),
                            (''error'', JStr (message e))]\<rparr>"
    using handler_rejected [of cfg up e] by (simp add: g)
qed

lemma token_failure_examples:
  "getAccessToken example_config (failing_token_upstream unauthorized) =
     ([token_request example_config],
      Inl (Error (''Spotify token API returned 401: ''
                  @ stringified (JObj [(''error'', JStr ''invalid_client'')]))))
   \<and> requests example_config (failing_token_upstream unauthorized)
       = [token_request example_config]
   \<and> statusCode (handler example_config (failing_token_upstream unauthorized)) = 500
   \<and> jsonBody (handler example_config (failing_token_upstream unauthorized)) =
       JObj [(''status'', JStr ''error''), (''isPlaying'', JBool False),
             (''error'', JStr (''Spotify token API returned 401: ''
                  @ stringified (JObj [(''error'', JStr ''invalid_client'')])))]
   \<and> statusCode (handler example_config (failing_token_upstream bad_gateway)) = 500
   \<and> jsonBody (handler example_config (failing_token_upstream bad_gateway)) =
       JObj [(''status'', JStr ''error''), (''isPlaying'', JBool False),
             (''error'', JStr ''Unexpected token < in JSON at position 0'')]"
proof -
  note t1 = token_failure_replies [where up = "failing_token_upstream unauthorized",
      OF failing_token_request not_ok_unauthorized,
      THEN conjunct1, THEN mp, OF json_unauthorized]
  note t2 = token_failure_replies [where up = "failing_token_upstream bad_gateway",
      OF failing_token_request not_ok_bad_gateway,
      THEN conjunct2, THEN mp, OF json_bad_gateway]
  from t1 t2 show ?thesis
    by (simp add: token_error_message_def show_nat_examples)
qed

text \<open>
  \<^bold>\<open>C4.\<close> A token answer with a status outside 200 to 299 is meant to raise
  \<^verbatim>\<open>Spotify token API returned <status>: <body>\<close> (lines 40 to 42). At a 502 whose
  body is an HTML page this is not what happens: the body is parsed on line 39, before
  \<^verbatim>\<open>response.ok\<close> is tested, so \<^verbatim>\<open>getAccessToken\<close> rejects with the parser's
  SyntaxError, whose message contains neither the status nor the body. The token request is
  the only request sent and the handler replies with status 500 and that message. (The
  recently-played part of \<^verbatim>\<open>getNowPlaying\<close> tests \<^verbatim>\<open>ok\<close> first and parses
  afterwards.)
\<close>

theorem token_failure_unparsable_body:
  "failing_token_upstream bad_gateway (token_request example_config) = Inr bad_gateway
   \<and> status bad_gateway = 502
   \<and> \<not> ok bad_gateway
   \<and> getAccessToken example_config (failing_token_upstream bad_gateway) =
       ([token_request example_config],
        Inl (SyntaxError ''Unexpected token < in JSON at position 0''))
   \<and> \<not> sublist (show_nat 502)
          (message (SyntaxError ''Unexpected token < in JSON at position 0''))
   \<and> requests example_config (failing_token_upstream bad_gateway)
       = [token_request example_config]
   \<and> handler example_config (failing_token_upstream bad_gateway) =
       \<lparr>statusCode = 500, setHeaders = [],
        jsonBody = JObj [(''status'', JStr ''error''), (''isPlaying'', JBool False),
                         (''error'', JStr ''Unexpected token < in JSON at position 0'')]\<rparr>"
proof -
  have a: "\<not> sublist (show_nat 502)
          (message (SyntaxError ''Unexpected token < in JSON at position 0''))"
    by code_simp
  have b: "status bad_gateway = 502"
    by (simp add: bad_gateway_def)
  note t = getAccessToken_not_json [where up = "failing_token_upstream bad_gateway",
      OF failing_token_request json_bad_gateway]
  note g = getNowPlaying_token_rejected [OF t]
  have r: "requests example_config (failing_token_upstream bad_gateway)
       = [token_request example_config]"
    by (simp add: requests_def g)
  have h: "handler example_config (failing_token_upstream bad_gateway) =
       \<lparr>statusCode = 500, setHeaders = [],
        jsonBody = JObj [(''status'', JStr ''error''), (''isPlaying'', JBool False),
                         (''error'', JStr ''Unexpected token < in JSON at position 0'')]\<rparr>"
    using handler_rejected [OF bad_gateway_result] by simp
  from failing_token_request b not_ok_bad_gateway t a r h show ?thesis
    by (intro conjI)
qed




text \<open>
  \<^bold>\<open>C6.\<close> When \<^verbatim>\<open>getNowPlaying\<close> resolves, the handler replies with status 200,
  the header \<^verbatim>\<open>Content-Type: application/json\<close>, the header
  \<^verbatim>\<open>cache-control: public, s-maxage=N, stale-while-revalidate=M\<close> with \<open>N = 10\<close>
  and \<open>M = 5\<close>, and the resolved value as the body.
\<close>

theorem success_reply_headers:
  assumes "snd (getNowPlaying cfg up) = Inr data"
  shows "statusCode (handler cfg up) = 200
       \<and> map_of (setHeaders (handler cfg up)) ''Content-Type'' = Some ''application/json''
       \<and> map_of (setHeaders (handler cfg up)) ''cache-control'' =
           Some (''public, s-maxage='' @ show_nat 10 @ '', stale-while-revalidate='' @ show_nat 5)
       \<and> jsonBody (handler cfg up) = data"
proof -
  have "show_nat 10 = ''10''" "show_nat 5 = ''5''"
    by code_simp+
  then show ?thesis
    by (simp add: handler_resolved [OF assms])
qed

theorem success_reply_headers_witness:
  "statusCode (handler example_config playing_upstream) = 200
   \<and> map_of (setHeaders (handler example_config playing_upstream)) ''Content-Type''
       = Some ''application/json''
   \<and> map_of (setHeaders (handler example_config playing_upstream)) ''cache-control''
       = Some ''public, s-maxage=10, stale-while-revalidate=5''"
  using success_reply_headers [OF playing_upstream_result]
  by (simp add: show_nat_examples)



text \<open>
  \<^bold>\<open>C8.\<close> Let the token be granted, nothing be playing, and the recently-played
  request of either revision be answered with a status outside 200 to 299. The first
  revision raises \<^verbatim>\<open>Spotify recent-played API returned <status>\<close> and its handler
  replies with status 500; the current revision resolves to
  \<^verbatim>\<open>{status: 'offline', isPlaying: false}\<close> and its handler replies with status 200.
  The two revisions differ on such an upstream.
\<close>

theorem revisions_disagree_on_recently_played_failure:
  assumes "token_granted cfg up tok"
    and "up (now_playing_request (authorization tok)) = Inr nowPlayingResponse"
    and "status nowPlayingResponse \<noteq> 200
         \<or> json nowPlayingResponse = Inr song \<and> \<not> nullish song
            \<and> (\<not> truthy (field song ''is_playing'')
                \<or> field (field song ''item'') ''type'' \<noteq> JStr ''track'')"
    and "up (recently_played_request_rev1 (authorization tok)) = Inr recentResponse1"
    and "\<not> ok recentResponse1"
    and "up (recently_played_request (authorization tok)) = Inr recentResponse"
    and "\<not> ok recentResponse"
  shows "snd (getNowPlaying_rev1 cfg up) =
           Inl (Error (''Spotify recent-played API returned ''
                       @ show_nat (status recentResponse1)))
       \<and> statusCode (handler_rev1 cfg up) = 500
       \<and> snd (getNowPlaying cfg up) =
           Inr (JObj [(''status'', JStr ''offline''), (''isPlaying'', JBool False)])
       \<and> statusCode (handler cfg up) = 200
       \<and> snd (getNowPlaying_rev1 cfg up) \<noteq> snd (getNowPlaying cfg up)
       \<and> handler_rev1 cfg up \<noteq> handler cfg up"
proof -
  have np: "nothing_playing up tok"
    using assms(2,3) by (auto simp: nothing_playing_def)
  have "getNowPlaying_rev1 cfg up =
          after [token_request cfg, now_playing_request (authorization tok)]
            (checkRecentlyPlayed_rev1 up (JStr tok))"
    unfolding getNowPlaying_rev1_granted [OF assms(1)]
    using assms(3)
    by (auto simp: await_fetch await_settled assms(2) after_def active_track_iff
          active_track_rev1_defined)
  then have old: "snd (getNowPlaying_rev1 cfg up) =
           Inl (Error (''Spotify recent-played API returned ''
                       @ show_nat (status recentResponse1)))"
    by (simp add: after_def checkRecentlyPlayed_rev1_not_ok [of up tok, OF assms(4,5)])
  have new: "snd (getNowPlaying cfg up) =
           Inr (JObj [(''status'', JStr ''offline''), (''isPlaying'', JBool False)])"
    unfolding getNowPlaying_idle [OF assms(1) np]
    by (simp add: checkRecentlyPlayed_responded [of up tok, OF assms(6)] assms(7) offline_def)
  have h1: "statusCode (handler_rev1 cfg up) = 500"
    by (simp add: handler_rev1_def old)
  have h2: "statusCode (handler cfg up) = 200"
    by (simp add: handler_resolved [OF new])
  have "handler_rev1 cfg up \<noteq> handler cfg up"
    using h1 h2 by auto
  then show ?thesis
    by (simp add: old new h1 h2)
qed

theorem revisions_disagree_on_recently_played_failure_witness:
  "snd (getNowPlaying_rev1 example_config (idle_upstream server_error)) =
     Inl (Error ''Spotify recent-played API returned 500'')
   \<and> statusCode (handler_rev1 example_config (idle_upstream server_error)) = 500
   \<and> snd (getNowPlaying example_config (idle_upstream server_error)) =
       Inr (JObj [(''status'', JStr ''offline''), (''isPlaying'', JBool False)])
   \<and> statusCode (handler example_config (idle_upstream server_error)) = 200"
proof -
  have b: "status no_content \<noteq> 200"
    by (simp add: no_content_def)
  have n: "show_nat (status server_error) = ''500''"
    unfolding server_error_def by code_simp
  note t = revisions_disagree_on_recently_played_failure
      [OF granted_idle np_idle disjI1, OF b recent_rev1_idle not_ok_server_error
        recent_idle not_ok_server_error]
  from t show ?thesis
    by (simp add: n)
qed

text \<open>
  \<^bold>\<open>C9.\<close> Let the token endpoint answer with a 2xx status and a JSON body that has
  no \<^verbatim>\<open>access_token\<close>. If the body is not \<^verbatim>\<open>null\<close>,
  \<^verbatim>\<open>getNowPlaying\<close> raises \<^verbatim>\<open>Could not get access token\<close>; if it is
  \<^verbatim>\<open>null\<close>, the destructuring of line 53 raises a TypeError. In both cases the
  token request is the only request sent, and the handler replies with status 500, the
  status \<^verbatim>\<open>error\<close> and the message of the error raised.
\<close>

theorem missing_access_token_is_error:
  assumes "up (token_request cfg) = Inr response"
    and "ok response"
    and "json response = Inr data"
    and "field data ''access_token'' = JUndefined"
  shows "(\<not> nullish data
          \<longrightarrow> getNowPlaying cfg up =
                ([token_request cfg], Inl (Error ''Could not get access token''))
            \<and> jsonBody (handler cfg up) =
                JObj [(''status'', JStr ''error''), (''isPlaying'', JBool False),
                      (''error'', JStr ''Could not get access token'')])
       \<and> (nullish data
          \<longrightarrow> getNowPlaying cfg up =
                ([token_request cfg], Inl (cannot_destructure data ''access_token''))
            \<and> jsonBody (handler cfg up) =
                JObj [(''status'', JStr ''error''), (''isPlaying'', JBool False),
                      (''error'', JStr (message (cannot_destructure data ''access_token'')))])
       \<and> requests cfg up = [token_request cfg]
       \<and> statusCode (handler cfg up) = 500
       \<and> field (jsonBody (handler cfg up)) ''status'' = JStr ''error''
       \<and> field (jsonBody (handler cfg up)) ''isPlaying'' = JBool False"
proof -
  note g = getNowPlaying_without_token [of up cfg, OF assms]
  show ?thesis
  proof (cases "nullish data")
    case True
    with g have e: "getNowPlaying cfg up =
        ([token_request cfg], Inl (cannot_destructure data ''access_token''))"
      by simp
    then have "snd (getNowPlaying cfg up) = Inl (cannot_destructure data ''access_token'')"
      by simp
    from handler_rejected [OF this] e True show ?thesis
      by (simp add: requests_def)
  next
    case False
    with g have e: "getNowPlaying cfg up =
        ([token_request cfg], Inl (Error ''Could not get access token''))"
      by simp
    then have "snd (getNowPlaying cfg up) = Inl (Error ''Could not get access token'')"
      by simp
    from handler_rejected [OF this] e False show ?thesis
      by (simp add: requests_def)
  qed
qed

theorem missing_access_token_is_error_witness:
  "getNowPlaying example_config (failing_token_upstream tokenless_response)
     = ([token_request example_config], Inl (Error ''Could not get access token''))
   \<and> jsonBody (handler example_config (failing_token_upstream tokenless_response)) =
       JObj [(''status'', JStr ''error''), (''isPlaying'', JBool False),
             (''error'', JStr ''Could not get access token'')]
   \<and> requests example_config (failing_token_upstream tokenless_response)
       = [token_request example_config]
   \<and> statusCode (handler example_config (failing_token_upstream tokenless_response)) = 500
   \<and> getNowPlaying example_config (failing_token_upstream null_token_response)
     = ([token_request example_config], Inl (cannot_destructure JNull ''access_token''))
   \<and> statusCode (handler example_config (failing_token_upstream null_token_response)) = 500"
proof -
  note t = missing_access_token_is_error
      [where up = "failing_token_upstream tokenless_response",
        OF failing_token_request tokenless_fields(1,2,4)]
  note a = t [THEN conjunct1, THEN mp, OF tokenless_fields(3)]
  note b = t [THEN conjunct2, THEN conjunct2]
  note u = missing_access_token_is_error
      [where up = "failing_token_upstream null_token_response",
        OF failing_token_request null_token_fields(1,2,4)]
  note c = u [THEN conjunct2, THEN conjunct1, THEN mp, OF null_token_fields(3)]
  note d = u [THEN conjunct2, THEN conjunct2]
  from a b c d show ?thesis
    by simp
qed

text \<open>
  A 2xx token answer whose JSON body is \<^verbatim>\<open>null\<close>: it has no
  \<^verbatim>\<open>access_token\<close>, and the error raised is the TypeError of the destructuring, not
  \<^verbatim>\<open>Could not get access token\<close>.
\<close>

theorem missing_access_token_counterexample:
  "failing_token_upstream null_token_response (token_request example_config)
     = Inr null_token_response
   \<and> ok null_token_response
   \<and> json null_token_response = Inr JNull
   \<and> field JNull ''access_token'' = JUndefined
   \<and> getNowPlaying example_config (failing_token_upstream null_token_response)
       = ([token_request example_config], Inl (cannot_destructure JNull ''access_token''))
   \<and> cannot_destructure JNull ''access_token'' \<noteq> Error ''Could not get access token''"
proof -
  note g = getNowPlaying_without_token [where up = "failing_token_upstream null_token_response",
      OF failing_token_request null_token_fields(1,2,4)]
  have n: "cannot_destructure JNull ''access_token'' \<noteq> Error ''Could not get access token''"
    by (simp add: cannot_destructure_def)
  from failing_token_request null_token_fields(1,2,4) g n show ?thesis
    by simp
qed

text \<open>
  \<^bold>\<open>C10.\<close> When \<^verbatim>\<open>getNowPlaying\<close> raises, the handler replies with status 500
  and has set no header: neither \<^verbatim>\<open>cache-control\<close> nor \<^verbatim>\<open>Content-Type\<close>.
  The handler sets these two headers only when \<^verbatim>\<open>getNowPlaying\<close> has resolved, in
  the reply with status 200.
\<close>

theorem error_reply_sets_no_headers:
  "(snd (getNowPlaying cfg up) = Inl e
      \<longrightarrow> statusCode (handler cfg up) = 500
        \<and> setHeaders (handler cfg up) = []
        \<and> map_of (setHeaders (handler cfg up)) ''cache-control'' = None
        \<and> map_of (setHeaders (handler cfg up)) ''Content-Type'' = None)
   \<and> (map_of (setHeaders (handler cfg up)) ''cache-control'' \<noteq> None
        \<or> map_of (setHeaders (handler cfg up)) ''Content-Type'' \<noteq> None
      \<longrightarrow> (\<exists>data. snd (getNowPlaying cfg up) = Inr data) \<and> statusCode (handler cfg up) = 200)"
proof (cases "snd (getNowPlaying cfg up)")
  case (Inl err)
  then show ?thesis
    by (simp add: handler_rejected [OF Inl])
next
  case (Inr data)
  then show ?thesis
    by (simp add: handler_resolved [OF Inr])
qed

theorem error_reply_sets_no_headers_witness:
  "statusCode (handler example_config (failing_token_upstream bad_gateway)) = 500
   \<and> setHeaders (handler example_config (failing_token_upstream bad_gateway)) = []
   \<and> map_of (setHeaders (handler example_config (failing_token_upstream bad_gateway)))
        ''cache-control'' = None
   \<and> statusCode (handler example_config playing_upstream) = 200"
proof -
  note t1 = error_reply_sets_no_headers [THEN conjunct1, THEN mp, OF bad_gateway_result]
  have h: "map_of (setHeaders (handler example_config playing_upstream)) ''cache-control'' \<noteq> None"
    by (simp add: handler_resolved [OF playing_upstream_result])
  note t2 = error_reply_sets_no_headers [THEN conjunct2, THEN mp, OF disjI1, OF h]
  from t1 t2 show ?thesis
    by simp
qed

end
